theory Spec2Isabelle
  imports Complex_Main "HOL-Library.Log_Nat" "HOL-Library.Char_ord" "HOL-Library.List_Lexorder"
    "HOL-Library.Multiset" "HOL-Library.Code_Target_Numeral"
begin

section \<open>Binary64 arithmetic\<close>

text \<open>
  The processor keeps every amount in a pandas \<^verbatim>\<open>float64\<close> column, and the KPI
  arithmetic is float arithmetic. An amount is a finite double, modelled by the rational
  number it denotes; a missing cell is \<open>None\<close>. Each arithmetic operation computes the
  exact rational result and rounds it to the nearest double, ties to even (53 significant
  bits, gradual underflow below \<open>2 ^ - 1022\<close>). The operations \<open>fadd\<close>, \<open>fsub\<close>,
  \<open>fmul\<close> and \<open>fdiv\<close> round without a bound on the exponent; the operations on
  \<open>float64\<close> below, with which the totals and the KPIs are computed, add the overflow to
  infinity and NaN. The sign of a zero is not modelled: no result below depends on it.
\<close>

type_synonym double = rat

definition pow2 :: "int \<Rightarrow> rat" where
  "pow2 e = (if 0 \<le> e then 2 ^ nat e else 1 / 2 ^ nat (- e))"

text \<open>\<open>ilog2 x\<close> is the exponent \<open>e\<close> with \<open>pow2 e \<le> x < pow2 (e + 1)\<close>, for \<open>0 < x\<close>.\<close>

definition ilog2 :: "rat \<Rightarrow> int" where
  "ilog2 x = (if 1 \<le> x then int (floorlog 2 (nat \<lfloor>x\<rfloor>)) - 1
              else - int (floorlog 2 (nat (\<lceil>1 / x\<rceil> - 1))))"

definition round_half_even :: "rat \<Rightarrow> int" where
  "round_half_even q =
     (let f = \<lfloor>q\<rfloor>; d = q - of_int f
      in if d < 1 / 2 then f else if 1 / 2 < d then f + 1 else if even f then f else f + 1)"

text \<open>\<open>fl x\<close> is the double nearest to \<open>x\<close>: what a float literal and every operation yield.\<close>

definition fl :: "rat \<Rightarrow> double" where
  "fl x = (if x = 0 then 0
           else let u = pow2 (max (ilog2 \<bar>x\<bar>) (- 1022) - 52)
                in sgn x * of_int (round_half_even (\<bar>x\<bar> / u)) * u)"

definition fadd :: "double \<Rightarrow> double \<Rightarrow> double" where
  "fadd a b = fl (a + b)"

definition fsub :: "double \<Rightarrow> double \<Rightarrow> double" where
  "fsub a b = fl (a - b)"

definition fmul :: "double \<Rightarrow> double \<Rightarrow> double" where
  "fmul a b = fl (a * b)"

definition fdiv :: "double \<Rightarrow> double \<Rightarrow> double" where
  "fdiv a b = fl (a / b)"

subsection \<open>Infinities and NaN\<close>

text \<open>A value that float arithmetic returns: a finite double, an infinity or NaN.\<close>

datatype float64 = Finite double | PosInf | NegInf | NaN

text \<open>A rounded result whose magnitude reaches \<open>2 ^ 1024\<close> is an infinity.\<close>

definition overflow :: "double \<Rightarrow> float64" where
  "overflow x =
     (if 2 ^ 1024 \<le> x then PosInf else if x \<le> - (2 ^ 1024) then NegInf else Finite x)"

fun f64_neg :: "float64 \<Rightarrow> float64" where
  "f64_neg (Finite a) = Finite (- a)"
| "f64_neg PosInf = NegInf"
| "f64_neg NegInf = PosInf"
| "f64_neg NaN = NaN"

fun f64_add :: "float64 \<Rightarrow> float64 \<Rightarrow> float64" where
  "f64_add (Finite a) (Finite b) = overflow (fadd a b)"
| "f64_add NaN y = NaN"
| "f64_add x NaN = NaN"
| "f64_add PosInf NegInf = NaN"
| "f64_add NegInf PosInf = NaN"
| "f64_add PosInf y = PosInf"
| "f64_add x PosInf = PosInf"
| "f64_add NegInf y = NegInf"
| "f64_add x NegInf = NegInf"

fun f64_sub :: "float64 \<Rightarrow> float64 \<Rightarrow> float64" where
  "f64_sub (Finite a) (Finite b) = overflow (fsub a b)"
| "f64_sub x y = f64_add x (f64_neg y)"

text \<open>The sign of a value that is not NaN: \<open>-1\<close>, \<open>0\<close> or \<open>1\<close>.\<close>

fun f64_sgn :: "float64 \<Rightarrow> int" where
  "f64_sgn (Finite a) = (if a < 0 then - 1 else if a = 0 then 0 else 1)"
| "f64_sgn PosInf = 1"
| "f64_sgn NegInf = - 1"
| "f64_sgn NaN = 0"

definition infinity :: "int \<Rightarrow> float64" where
  "infinity s = (if s = 0 then NaN else if 0 < s then PosInf else NegInf)"

text \<open>An infinity times zero is NaN.\<close>

fun f64_mul :: "float64 \<Rightarrow> float64 \<Rightarrow> float64" where
  "f64_mul (Finite a) (Finite b) = overflow (fmul a b)"
| "f64_mul NaN y = NaN"
| "f64_mul x NaN = NaN"
| "f64_mul x y = infinity (f64_sgn x * f64_sgn y)"

text \<open>
  \<open>calculate_kpis\<close> only divides by a positive total, a finite one or \<open>PosInf\<close>. The
  quotients by zero are those of \<^verbatim>\<open>numpy.float64\<close>, which warns and does not raise.
\<close>

fun f64_div :: "float64 \<Rightarrow> float64 \<Rightarrow> float64" where
  "f64_div (Finite a) (Finite b) =
     (if b = 0 then infinity (f64_sgn (Finite a)) else overflow (fdiv a b))"
| "f64_div NaN y = NaN"
| "f64_div x NaN = NaN"
| "f64_div (Finite a) y = Finite 0"
| "f64_div x (Finite b) = (if b < 0 then f64_neg x else x)"
| "f64_div x y = NaN"

text \<open>\<^verbatim>\<open>x > 0\<close>, false for NaN.\<close>

fun f64_positive :: "float64 \<Rightarrow> bool" where
  "f64_positive (Finite a) = (0 < a)"
| "f64_positive PosInf = True"
| "f64_positive NegInf = False"
| "f64_positive NaN = False"

subsection \<open>The sum of a column\<close>

text \<open>
  \<^verbatim>\<open>Series.sum()\<close> of a \<^verbatim>\<open>float64\<close> column without \<^verbatim>\<open>NaN\<close> is numpy's
  \<^verbatim>\<open>add.reduce\<close> over the column, which pandas calls for sums (it leaves sums to numpy
  also when bottleneck is installed): the result starts at zero and receives the pairwise
  sum of the column, so that the sum of an empty column is zero. The pairwise sum
  (\<^verbatim>\<open>DOUBLE_pairwise_sum\<close>) adds fewer than eight entries in order; it adds up to 128
  entries in eight accumulators, the entry \<open>i\<close> going to the accumulator \<open>i mod 8\<close>,
  combines the accumulators in a fixed tree and then adds the entries left over
  (\<open>n mod 8\<close> of them) in order; it splits a longer column in two, the first part a
  multiple of eight long, and adds the sums of the two parts.
\<close>

definition in_order :: "float64 \<Rightarrow> double list \<Rightarrow> float64" where
  "in_order res a = foldl (\<lambda>res x. f64_add res (Finite x)) res a"

text \<open>\<^verbatim>\<open>for (i = 8; i < n - (n % 8); i += 8) { r[0] += a[i + 0]; ... r[7] += a[i + 7]; }\<close>\<close>

fun accumulate8 :: "float64 list \<Rightarrow> double list \<Rightarrow> float64 list" where
  "accumulate8 r a =
     (if 8 \<le> length a
      then accumulate8 (map2 f64_add r (map Finite (take 8 a))) (drop 8 a)
      else r)"

text \<open>
  \<^verbatim>\<open>((r[0] + r[1]) + (r[2] + r[3])) + ((r[4] + r[5]) + (r[6] + r[7]))\<close>; there are always
  eight accumulators.
\<close>

definition tree8 :: "float64 list \<Rightarrow> float64" where
  "tree8 r =
     (case r of
        [r0, r1, r2, r3, r4, r5, r6, r7] \<Rightarrow>
          f64_add (f64_add (f64_add r0 r1) (f64_add r2 r3))
            (f64_add (f64_add r4 r5) (f64_add r6 r7))
      | _ \<Rightarrow> NaN)"

function pairwise_sum :: "double list \<Rightarrow> float64" where
  "pairwise_sum a =
     (if length a < 8 then in_order (Finite 0) a
      else if length a \<le> 128
      then in_order (tree8 (accumulate8 (map Finite (take 8 a)) (drop 8 a)))
             (drop (length a - length a mod 8) a)
      else f64_add
             (pairwise_sum (take (length a div 2 - length a div 2 mod 8) a))
             (pairwise_sum (drop (length a div 2 - length a div 2 mod 8) a)))"
  by pat_completeness auto
termination
  by (relation "measure length") auto

definition series_sum :: "double list \<Rightarrow> float64" where
  "series_sum a = f64_add (Finite 0) (pairwise_sum a)"

section \<open>Data model\<close>

datatype timestamp = Timestamp (ts_year: int) (ts_month: int) (ts_day: int)

text \<open>
  A row of a source frame after the column selection
  \<^verbatim>\<open>df[['Date', 'Amount', 'Year', 'Category', 'Type', 'Details']]\<close>. \<open>Date = None\<close> is
  pandas' \<^verbatim>\<open>NaT\<close>; \<open>Details = None\<close> is an empty cell.
\<close>

record entry =
  Date :: "timestamp option"
  Amount :: double
  Year :: int
  Category :: string
  Type :: string
  Details :: "string option"

text \<open>
  A row of the consolidated ledger: the six columns and the two period labels derived
  from \<open>Date\<close>. \<^verbatim>\<open>'2024-12'\<close> is \<open>Some (2024, 12)\<close>, \<^verbatim>\<open>'2024Q4'\<close> is
  \<open>Some (2024, 4)\<close>, and the label \<^verbatim>\<open>'NaT'\<close> of a missing date is \<open>None\<close>.
\<close>

record transaction = entry +
  Month :: "(int \<times> int) option"
  Quarter :: "(int \<times> int) option"

subsection \<open>The workbook\<close>

text \<open>
  The sheets of \<^verbatim>\<open>blancosy book of accounts 2025.xlsx\<close> as \<^verbatim>\<open>read_excel\<close> returns
  them, restricted to the columns the loader reads. Cells are given after coercion:
  \<^verbatim>\<open>pd.to_datetime(..., errors='coerce')\<close> and
  \<^verbatim>\<open>pd.to_numeric(..., errors='coerce')\<close> turn every missing or unparseable cell into
  \<^verbatim>\<open>NaT\<close> or \<^verbatim>\<open>NaN\<close>, written \<open>None\<close>. The columns \<^verbatim>\<open>Withdrawals\<close> and
  \<^verbatim>\<open>Deposits\<close>, which the loader reads without \<^verbatim>\<open>to_numeric\<close>, are taken to be
  numeric columns (\<^verbatim>\<open>float64\<close> with \<^verbatim>\<open>NaN\<close> for an empty cell).

  The sheets \<^verbatim>\<open>Sales\<close> and \<^verbatim>\<open>rent\<close> are read by position: the loader overwrites
  their header with five names, which raises unless the sheet has exactly five columns.
  For \<^verbatim>\<open>Sales\<close>, \<open>p_date\<close>, \<open>p_amount\<close>, \<open>p_details\<close> are columns 1, 4 and 5; for
  \<^verbatim>\<open>rent\<close> they are columns 2, 3 and 5.
\<close>

record prow =
  p_date :: "timestamp option"
  p_amount :: "double option"
  p_details :: "string option"

record psheet =
  width :: nat
  prows :: "prow list"

text \<open>
  The other sheets are read by column name; \<open>columns\<close> is the header of the sheet, and a
  field of a row is only meaningful when its column is in the header. Headers are bank
  statement headers: none of them is already called \<^verbatim>\<open>Date\<close>, \<^verbatim>\<open>Amount\<close> or
  \<^verbatim>\<open>Details\<close>.
\<close>

record nrow =
  tran_date :: "timestamp option"
  withdrawals :: "double option"
  deposits :: "double option"
  narrative :: "string option"

record nsheet =
  columns :: "string list"
  nrows :: "nrow list"

record workbook =
  sheet_Sales :: "psheet option"
  sheet_Labour :: "nsheet option"
  sheet_rent :: "psheet option"
  sheet_Purchase_of_stock :: "nsheet option"
  sheet_Utilities :: "nsheet option"
  sheet_Saving :: "nsheet option"
  sheet_Expense :: "nsheet option"

datatype error =
  FileNotFound
  | SheetNotFound string
  | KeyError string
  | LengthMismatch nat

text \<open>\<^verbatim>\<open>pd.read_excel(file, sheet_name=name)\<close>; the workbook is \<open>None\<close> when the file is absent.\<close>

definition read_excel :: "workbook option \<Rightarrow> (workbook \<Rightarrow> 's option) \<Rightarrow> string \<Rightarrow> error + 's" where
  "read_excel wb sheet name =
     (case wb of
        None \<Rightarrow> Inl FileNotFound
      | Some w \<Rightarrow> (case sheet w of None \<Rightarrow> Inl (SheetNotFound name) | Some df \<Rightarrow> Inr df))"

section \<open>The data consolidator\<close>

text \<open>The loader's two local variables.\<close>

record loader =
  all_data :: "entry list list"
  success :: bool

subsection \<open>2024: the official P&L figures\<close>

definition year_end_2024 :: timestamp where
  "year_end_2024 = Timestamp 2024 12 31"

definition sales_data :: entry where
  "sales_data = \<lparr>Date = Some year_end_2024, Amount = 22619122, Year = 2024,
     Category = ''Sales'', Type = ''Income'',
     Details = Some ''Total Sales Revenue (Official P&L)''\<rparr>"

definition cogs_data :: entry where
  "cogs_data = \<lparr>Date = Some year_end_2024, Amount = 17244564, Year = 2024,
     Category = ''Stock Purchase'', Type = ''Expense'',
     Details = Some ''Cost of Goods Sold - Purchases (Official P&L)''\<rparr>"

definition expenses_2024 :: "(string \<times> double \<times> string) list" where
  "expenses_2024 =
     [(''Labour'', 601155, ''Labour Expenses (Official P&L)''),
      (''Rent'', 192000, ''Rent Expenses (Official P&L)''),
      (''Transport'', 1028770, ''Transport Expenses (Official P&L)''),
      (''Transaction Costs'', fl 163557.65, ''Transaction Costs & Charges (Official P&L)'')]"

definition expense_data :: "string \<times> double \<times> string \<Rightarrow> entry" where
  "expense_data expense =
     (case expense of (category, amount, details) \<Rightarrow>
        \<lparr>Date = Some year_end_2024, Amount = amount, Year = 2024,
         Category = category, Type = ''Expense'', Details = Some details\<rparr>)"

text \<open>The first \<^verbatim>\<open>try\<close> block: nothing in it depends on an input, and nothing in it raises.\<close>

definition official_2024 :: "loader \<Rightarrow> loader" where
  "official_2024 st =
     \<lparr>all_data = all_data st @ [[sales_data], [cogs_data]] @ map (\<lambda>e. [expense_data e]) expenses_2024,
      success = True\<rparr>"

subsection \<open>2025: the sheets\<close>

text \<open>
  \<^verbatim>\<open>dropna(subset=[date, amount])\<close> followed by the assignment of the constant columns,
  for one row: it is kept only if both cells are present.
\<close>

definition keep_row :: "string \<Rightarrow> string \<Rightarrow> timestamp option \<Rightarrow> double option \<Rightarrow> string option \<Rightarrow> entry list" where
  "keep_row category type d a details =
     (case d of
        None \<Rightarrow> []
      | Some t \<Rightarrow>
          (case a of
             None \<Rightarrow> []
           | Some x \<Rightarrow>
               [\<lparr>Date = Some t, Amount = x, Year = 2025, Category = category, Type = type,
                 Details = details\<rparr>]))"

text \<open>A \<^verbatim>\<open>try\<close> block that appends its frame and sets the flag as its last two steps.\<close>

definition try_source :: "error + entry list \<Rightarrow> loader \<Rightarrow> loader" where
  "try_source r st =
     (case r of
        Inl e \<Rightarrow> st
      | Inr df \<Rightarrow> \<lparr>all_data = all_data st @ [df], success = True\<rparr>)"

definition sales_2025 :: "workbook option \<Rightarrow> error + entry list" where
  "sales_2025 wb =
     (case read_excel wb sheet_Sales ''Sales'' of
        Inl e \<Rightarrow> Inl e
      | Inr df \<Rightarrow>
          if width df = 5
          then Inr (concat (map (\<lambda>r. keep_row ''Sales'' ''Income'' (p_date r) (p_amount r) (p_details r))
                 (prows df)))
          else Inl (LengthMismatch (width df)))"

text \<open>
  The sheets \<^verbatim>\<open>Labour\<close>, \<^verbatim>\<open>Purchase of stock\<close> and \<^verbatim>\<open>Expense\<close> are loaded by the
  same six statements, which differ in the sheet, the amount column and the category.
  \<^verbatim>\<open>df['Tran Date']\<close> and \<^verbatim>\<open>dropna\<close> raise \<^verbatim>\<open>KeyError\<close> on a missing column;
  \<^verbatim>\<open>rename\<close> skips a missing \<^verbatim>\<open>Transaction Narrative\<close>, and the final column
  selection then raises because there is no \<^verbatim>\<open>Details\<close>.
\<close>

definition statement_sheet ::
  "error + nsheet \<Rightarrow> string \<Rightarrow> (nrow \<Rightarrow> double option) \<Rightarrow> string \<Rightarrow> error + entry list" where
  "statement_sheet read amount_col amount category =
     (case read of
        Inl e \<Rightarrow> Inl e
      | Inr df \<Rightarrow>
          if ''Tran Date'' \<in> set (columns df)
          then if amount_col \<in> set (columns df)
            then if ''Transaction Narrative'' \<in> set (columns df)
              then Inr (concat (map (\<lambda>r. keep_row category ''Expense'' (tran_date r) (amount r) (narrative r))
                     (nrows df)))
              else Inl (KeyError ''Details'')
            else Inl (KeyError amount_col)
          else Inl (KeyError ''Tran Date''))"

definition labour_2025 :: "workbook option \<Rightarrow> error + entry list" where
  "labour_2025 wb =
     statement_sheet (read_excel wb sheet_Labour ''Labour'') ''Withdrawals'' withdrawals ''Labour''"

definition rent_2025 :: "workbook option \<Rightarrow> error + entry list" where
  "rent_2025 wb =
     (case read_excel wb sheet_rent ''rent'' of
        Inl e \<Rightarrow> Inl e
      | Inr df \<Rightarrow>
          if width df = 5
          then Inr (concat (map (\<lambda>r. keep_row ''Rent'' ''Expense'' (p_date r) (p_amount r) (p_details r))
                 (drop 1 (prows df))))
          else Inl (LengthMismatch (width df)))"

definition stock_purchase_2025 :: "workbook option \<Rightarrow> error + entry list" where
  "stock_purchase_2025 wb =
     statement_sheet (read_excel wb sheet_Purchase_of_stock ''Purchase of stock'')
       ''Deposits'' deposits ''Stock Purchase''"

text \<open>\<^verbatim>\<open>fillna(0)\<close> on one cell.\<close>

definition fillna0 :: "double option \<Rightarrow> double" where
  "fillna0 a = (case a of None \<Rightarrow> 0 | Some x \<Rightarrow> x)"

definition utilities_row :: "nrow \<Rightarrow> entry list" where
  "utilities_row r =
     (let amount = fadd (fillna0 (withdrawals r)) (fillna0 (deposits r))
      in case tran_date r of
           None \<Rightarrow> []
         | Some t \<Rightarrow>
             if 0 < amount
             then [\<lparr>Date = Some t, Amount = amount, Year = 2025, Category = ''Utilities'',
                    Type = ''Expense'', Details = narrative r\<rparr>]
             else [])"

definition utilities_2025 :: "workbook option \<Rightarrow> error + entry list" where
  "utilities_2025 wb =
     (case read_excel wb sheet_Utilities ''Utilities'' of
        Inl e \<Rightarrow> Inl e
      | Inr df \<Rightarrow>
          if ''Tran Date'' \<in> set (columns df)
          then if ''Withdrawals'' \<in> set (columns df)
            then if ''Deposits'' \<in> set (columns df)
              then if ''Transaction Narrative'' \<in> set (columns df)
                then Inr (concat (map utilities_row (nrows df)))
                else Inl (KeyError ''Details'')
              else Inl (KeyError ''Deposits'')
            else Inl (KeyError ''Withdrawals'')
          else Inl (KeyError ''Tran Date''))"

text \<open>\<^verbatim>\<open>col.notna() & (col > 0)\<close> on one cell.\<close>

definition positive :: "double option \<Rightarrow> bool" where
  "positive a = (case a of None \<Rightarrow> False | Some x \<Rightarrow> 0 < x)"

definition savings_income :: "nrow \<Rightarrow> entry" where
  "savings_income r =
     \<lparr>Date = tran_date r, Amount = fillna0 (deposits r), Year = 2025, Category = ''Savings'',
      Type = ''Income'', Details = narrative r\<rparr>"

definition savings_expense :: "nrow \<Rightarrow> entry" where
  "savings_expense r =
     \<lparr>Date = tran_date r, Amount = fillna0 (withdrawals r), Year = 2025,
      Category = ''Savings Withdrawal'', Type = ''Expense'', Details = narrative r\<rparr>"

text \<open>
  The \<^verbatim>\<open>Saving\<close> block appends up to two frames, and it appends the income frame before
  it reads the \<^verbatim>\<open>Withdrawals\<close> column. An exception leaves the block with what has been
  appended so far and without setting the flag. The date is coerced but rows without a
  date are not dropped. (\<open>fillna0\<close> is only applied to cells that passed \<open>positive\<close>.)
\<close>

definition savings_2025 :: "workbook option \<Rightarrow> loader \<Rightarrow> loader" where
  "savings_2025 wb st =
     (case read_excel wb sheet_Saving ''Saving'' of
        Inl e \<Rightarrow> st
      | Inr df \<Rightarrow>
          if ''Tran Date'' \<in> set (columns df) \<and> ''Deposits'' \<in> set (columns df)
          then
            let income_df = filter (\<lambda>r. positive (deposits r)) (nrows df)
            in if income_df \<noteq> [] \<and> ''Transaction Narrative'' \<notin> set (columns df)
               then st
               else
                 let st1 = (if income_df \<noteq> []
                            then st\<lparr>all_data := all_data st @ [map savings_income income_df]\<rparr>
                            else st)
                 in if ''Withdrawals'' \<in> set (columns df)
                    then
                      let expense_df = filter (\<lambda>r. positive (withdrawals r)) (nrows df)
                      in if expense_df \<noteq> [] \<and> ''Transaction Narrative'' \<notin> set (columns df)
                         then st1
                         else
                           (if expense_df \<noteq> []
                            then st1\<lparr>all_data := all_data st1 @ [map savings_expense expense_df]\<rparr>
                            else st1)\<lparr>success := True\<rparr>
                    else st1
          else st)"

definition other_expenses_2025 :: "workbook option \<Rightarrow> error + entry list" where
  "other_expenses_2025 wb =
     statement_sheet (read_excel wb sheet_Expense ''Expense'') ''Withdrawals'' withdrawals
       ''Other Expenses''"

subsection \<open>Consolidation\<close>

definition to_period_M :: "timestamp option \<Rightarrow> (int \<times> int) option" where
  "to_period_M d = (case d of None \<Rightarrow> None | Some t \<Rightarrow> Some (ts_year t, ts_month t))"

definition to_period_Q :: "timestamp option \<Rightarrow> (int \<times> int) option" where
  "to_period_Q d =
     (case d of None \<Rightarrow> None | Some t \<Rightarrow> Some (ts_year t, (ts_month t - 1) div 3 + 1))"

definition with_periods :: "entry \<Rightarrow> transaction" where
  "with_periods e =
     \<lparr>Date = Date e, Amount = Amount e, Year = Year e, Category = Category e, Type = Type e,
      Details = Details e, Month = to_period_M (Date e), Quarter = to_period_Q (Date e)\<rparr>"

text \<open>\<^verbatim>\<open>pd.concat(all_data, ignore_index=True)\<close> and the two derived columns.\<close>

definition consolidate :: "entry list list \<Rightarrow> transaction list" where
  "consolidate frames = map with_periods (concat frames)"

record processor =
  consolidated_data :: "transaction list option"

text \<open>\<^verbatim>\<open>__init__\<close>\<close>

definition init :: processor where
  "init = \<lparr>consolidated_data = None\<rparr>"

text \<open>\<^verbatim>\<open>all_data = []\<close>, \<^verbatim>\<open>success = False\<close>\<close>

definition fresh :: loader where
  "fresh = \<lparr>all_data = [], success = False\<rparr>"

text \<open>The eight \<^verbatim>\<open>try\<close> blocks, in the order in which the method runs them.\<close>

definition sources :: "workbook option \<Rightarrow> (loader \<Rightarrow> loader) list" where
  "sources wb =
     [official_2024,
      try_source (sales_2025 wb),
      try_source (labour_2025 wb),
      try_source (rent_2025 wb),
      try_source (stock_purchase_2025 wb),
      try_source (utilities_2025 wb),
      savings_2025 wb,
      try_source (other_expenses_2025 wb)]"

text \<open>The state of the loader after the last source block.\<close>

definition load_sources :: "workbook option \<Rightarrow> loader" where
  "load_sources wb = foldl (\<lambda>st block. block st) fresh (sources wb)"

text \<open>
  The method returns \<open>success\<close> and leaves the ledger in the processor. Between the
  consolidation and the \<^verbatim>\<open>return\<close> it logs the size, the date range, the categories,
  the years and a summary \<^verbatim>\<open>groupby(['Category', 'Type']).agg({'Amount': ['count', 'sum']})\<close>
  of the ledger, outside every \<^verbatim>\<open>try\<close>. The log is not part of the state. On a ledger
  whose \<^verbatim>\<open>Amount\<close> column is numeric, which is every ledger of this model, these
  statements do not raise. On a ledger whose \<^verbatim>\<open>Amount\<close> column holds a text, which
  \<^verbatim>\<open>Labour\<close>, \<^verbatim>\<open>Purchase of stock\<close> or \<^verbatim>\<open>Expense\<close> can pass on from a cell that
  is not a number, the summary raises \<^verbatim>\<open>TypeError\<close> and the method does not return:
  such a workbook is not a value of \<open>workbook\<close>, and \<open>load_and_clean_data\<close> says
  nothing of it.
\<close>

definition load_and_clean_data :: "workbook option \<Rightarrow> processor \<Rightarrow> bool \<times> processor" where
  "load_and_clean_data wb self =
     (let st = load_sources wb
      in if all_data st \<noteq> [] \<and> success st
         then (success st, self\<lparr>consolidated_data := Some (consolidate (all_data st))\<rparr>)
         else (success st, self))"

section \<open>The summary calculator\<close>

definition ts_le :: "timestamp \<Rightarrow> timestamp \<Rightarrow> bool" where
  "ts_le a b =
     (ts_year a < ts_year b \<or>
      (ts_year a = ts_year b \<and>
       (ts_month a < ts_month b \<or> (ts_month a = ts_month b \<and> ts_day a \<le> ts_day b))))"

text \<open>\<^verbatim>\<open>Series.min()\<close> and \<^verbatim>\<open>Series.max()\<close> of a date column skip \<^verbatim>\<open>NaT\<close>.\<close>

definition date_min :: "timestamp option list \<Rightarrow> timestamp option" where
  "date_min ds =
     (case List.map_filter (\<lambda>d. d) ds of
        [] \<Rightarrow> None
      | t # ts \<Rightarrow> Some (foldl (\<lambda>m x. if ts_le x m then x else m) t ts))"

definition date_max :: "timestamp option list \<Rightarrow> timestamp option" where
  "date_max ds =
     (case List.map_filter (\<lambda>d. d) ds of
        [] \<Rightarrow> None
      | t # ts \<Rightarrow> Some (foldl (\<lambda>m x. if ts_le m x then x else m) t ts))"

text \<open>\<^verbatim>\<open>sorted(col.unique().tolist())\<close>\<close>

definition sorted_unique :: "'a::linorder list \<Rightarrow> 'a list" where
  "sorted_unique xs = sort (remdups xs)"

text \<open>\<^verbatim>\<open>frame[frame['Type'] == t]['Amount'].sum()\<close>\<close>

definition amount_sum :: "string \<Rightarrow> transaction list \<Rightarrow> float64" where
  "amount_sum t frame = series_sum (map Amount (filter (\<lambda>r. Type r = t) frame))"

record year_summary =
  transactions :: nat
  total_income :: float64
  total_expenses :: float64

record summary =
  total_transactions :: nat
  date_range_start :: "timestamp option"
  date_range_end :: "timestamp option"
  categories :: "string list"
  years :: "int list"
  transaction_types :: "string list"
  year_breakdown :: "(int \<times> year_summary) list"

definition year_entry :: "transaction list \<Rightarrow> int \<Rightarrow> int \<times> year_summary" where
  "year_entry data year =
     (let year_data = filter (\<lambda>r. Year r = year) data
      in (year, \<lparr>transactions = length year_data,
                 total_income = amount_sum ''Income'' year_data,
                 total_expenses = amount_sum ''Expense'' year_data\<rparr>))"

text \<open>
  The result \<open>None\<close> is the empty dictionary. \<open>year_breakdown\<close> lists the dictionary's
  items in the order the loop inserts them; its keys are distinct, and \<open>map_of\<close> looks a
  year up.
\<close>

definition get_data_summary :: "processor \<Rightarrow> summary option" where
  "get_data_summary self =
     (case consolidated_data self of
        None \<Rightarrow> None
      | Some data \<Rightarrow>
          Some \<lparr>total_transactions = length data,
                date_range_start = date_min (map Date data),
                date_range_end = date_max (map Date data),
                categories = sorted_unique (map Category data),
                years = sorted_unique (map Year data),
                transaction_types = sorted_unique (map Type data),
                year_breakdown = map (year_entry data) (sorted_unique (map Year data))\<rparr>)"

text \<open>
  The \<^verbatim>\<open>year\<close> argument is annotated \<^verbatim>\<open>Optional[int]\<close> and compared with the string
  \<^verbatim>\<open>'both'\<close>, so it is an integer or a string.
\<close>

datatype year_arg = YInt int | YStr string

text \<open>\<^verbatim>\<open>year and year != 'both'\<close>: \<^verbatim>\<open>None\<close>, \<^verbatim>\<open>0\<close> and \<^verbatim>\<open>''\<close> are falsy.\<close>

definition year_given :: "year_arg option \<Rightarrow> bool" where
  "year_given year =
     (case year of
        None \<Rightarrow> False
      | Some (YInt n) \<Rightarrow> n \<noteq> 0
      | Some (YStr s) \<Rightarrow> s \<noteq> [] \<and> s \<noteq> ''both'')"

text \<open>\<^verbatim>\<open>filtered_data['Year'] == year\<close>: an integer never equals a string.\<close>

definition year_matches :: "year_arg option \<Rightarrow> int \<Rightarrow> bool" where
  "year_matches year y =
     (case year of
        None \<Rightarrow> False
      | Some (YInt n) \<Rightarrow> y = n
      | Some (YStr s) \<Rightarrow> False)"

text \<open>\<^verbatim>\<open>if categories:\<close>: \<^verbatim>\<open>None\<close> and the empty list are falsy.\<close>

definition categories_given :: "string list option \<Rightarrow> bool" where
  "categories_given cats = (case cats of None \<Rightarrow> False | Some cs \<Rightarrow> cs \<noteq> [])"

definition category_isin :: "string list option \<Rightarrow> string \<Rightarrow> bool" where
  "category_isin cats c = (case cats of None \<Rightarrow> False | Some cs \<Rightarrow> c \<in> set cs)"

text \<open>\<^verbatim>\<open>transaction_type and transaction_type != 'both'\<close>\<close>

definition type_given :: "string option \<Rightarrow> bool" where
  "type_given ty = (case ty of None \<Rightarrow> False | Some t \<Rightarrow> t \<noteq> [] \<and> t \<noteq> ''both'')"

definition filter_data ::
  "processor \<Rightarrow> year_arg option \<Rightarrow> string list option \<Rightarrow> string option \<Rightarrow> transaction list" where
  "filter_data self year cats transaction_type =
     (case consolidated_data self of
        None \<Rightarrow> []
      | Some data \<Rightarrow>
          let filtered_data = data;
              filtered_data = (if year_given year
                               then filter (\<lambda>r. year_matches year (Year r)) filtered_data
                               else filtered_data);
              filtered_data = (if categories_given cats
                               then filter (\<lambda>r. category_isin cats (Category r)) filtered_data
                               else filtered_data);
              filtered_data = (if type_given transaction_type
                               then filter (\<lambda>r. Some (Type r) = transaction_type) filtered_data
                               else filtered_data)
          in filtered_data)"

text \<open>
  The dictionaries of KPIs and of official figures are maps from the key to the number.
  The totals are \<^verbatim>\<open>numpy.float64\<close> values, whose arithmetic does not raise; the
  integers \<^verbatim>\<open>0\<close> of the empty frame and of the guard are the value \<open>Finite 0\<close>, to
  which they are equal.
\<close>

definition calculate_kpis :: "transaction list \<Rightarrow> (string \<rightharpoonup> float64)" where
  "calculate_kpis filtered_data =
     (if filtered_data = []
      then map_of [(''total_income'', Finite 0), (''total_expenses'', Finite 0),
                   (''net_profit'', Finite 0), (''profit_margin'', Finite 0)]
      else
        let total_income = amount_sum ''Income'' filtered_data;
            total_expenses = amount_sum ''Expense'' filtered_data;
            net_profit = f64_sub total_income total_expenses;
            profit_margin = (if f64_positive total_income
                             then f64_mul (f64_div net_profit total_income) (Finite 100)
                             else Finite 0)
        in map_of [(''total_income'', total_income), (''total_expenses'', total_expenses),
                   (''net_profit'', net_profit), (''profit_margin'', profit_margin)])"

definition get_official_2024_summary :: "string \<rightharpoonup> double" where
  "get_official_2024_summary =
     map_of [(''sales'', 22619122),
             (''cogs'', 17244564),
             (''gross_profit'', 5374558),
             (''labour'', 601155),
             (''rent'', 192000),
             (''transport'', 1028770),
             (''transaction_costs'', fl 163557.65),
             (''total_operating_expenses'', fl 1985482.65),
             (''net_profit'', fl 3389075.35),
             (''gross_profit_margin'', fl 23.8),
             (''net_profit_margin'', fl 15.0)]"

section \<open>Notions used in the statements\<close>

text \<open>What one source block appends when it runs first, and whether it sets the flag.\<close>

definition contribution :: "(loader \<Rightarrow> loader) \<Rightarrow> entry list" where
  "contribution block = concat (all_data (block fresh))"

definition sets_flag :: "(loader \<Rightarrow> loader) \<Rightarrow> bool" where
  "sets_flag block = success (block fresh)"

text \<open>A block that only appends, whatever the state it starts from.\<close>

definition appends :: "(loader \<Rightarrow> loader) \<Rightarrow> bool" where
  "appends block =
     (\<forall>st. all_data (block st) = all_data st @ all_data (block fresh)
        \<and> success (block st) = (success st \<or> success (block fresh)))"

text \<open>The fixed label set of the data model.\<close>

definition category_labels :: "string list" where
  "category_labels =
     [''Sales'', ''Stock Purchase'', ''Labour'', ''Rent'', ''Transport'', ''Transaction Costs'',
      ''Utilities'', ''Savings'', ''Savings Withdrawal'', ''Other Expenses'']"

text \<open>
  The amounts that the loader copies from a sheet without looking at their sign: the
  amount column of \<^verbatim>\<open>Sales\<close> and of \<^verbatim>\<open>rent\<close> (below its first row),
  \<^verbatim>\<open>Withdrawals\<close> of \<^verbatim>\<open>Labour\<close> and \<^verbatim>\<open>Expense\<close>, \<^verbatim>\<open>Deposits\<close> of
  \<^verbatim>\<open>Purchase of stock\<close>.
\<close>

definition prows_of :: "psheet option \<Rightarrow> prow list" where
  "prows_of s = (case s of None \<Rightarrow> [] | Some df \<Rightarrow> prows df)"

definition nrows_of :: "nsheet option \<Rightarrow> nrow list" where
  "nrows_of s = (case s of None \<Rightarrow> [] | Some df \<Rightarrow> nrows df)"

definition copied_amounts :: "workbook option \<Rightarrow> double option list" where
  "copied_amounts wb =
     (case wb of
        None \<Rightarrow> []
      | Some w \<Rightarrow>
          map p_amount (prows_of (sheet_Sales w))
          @ map withdrawals (nrows_of (sheet_Labour w))
          @ map p_amount (drop 1 (prows_of (sheet_rent w)))
          @ map deposits (nrows_of (sheet_Purchase_of_stock w))
          @ map withdrawals (nrows_of (sheet_Expense w)))"

definition nonneg_cell :: "double option \<Rightarrow> bool" where
  "nonneg_cell a = (case a of None \<Rightarrow> True | Some x \<Rightarrow> 0 \<le> x)"

text \<open>What holds of every record of a ledger loaded from the workbook \<open>wb\<close>.\<close>

definition wellformed :: "workbook option \<Rightarrow> 'a entry_scheme \<Rightarrow> bool" where
  "wellformed wb e =
     (Category e \<in> set category_labels
      \<and> (Type e = ''Income'' \<or> Type e = ''Expense'')
      \<and> (Year e = 2024 \<or> Category e \<in> {''Utilities'', ''Savings'', ''Savings Withdrawal''}
           \<longrightarrow> 0 \<le> Amount e)
      \<and> (list_all nonneg_cell (copied_amounts wb) \<longrightarrow> 0 \<le> Amount e))"

text \<open>Rounding to one decimal place, as in \<^verbatim>\<open>round(x, 1)\<close>.\<close>

definition one_decimal :: "double \<Rightarrow> double" where
  "one_decimal x = fl (of_int (round_half_even (x * 10)) / 10)"

subsection \<open>Workbooks and processors used as examples\<close>

text \<open>The processor after a load without the workbook file: the ledger of Source A alone.\<close>

definition official_only :: processor where
  "official_only = snd (load_and_clean_data None init)"

definition statement_columns :: "string list" where
  "statement_columns =
     [''Tran Date'', ''Value Date'', ''Transaction Narrative'', ''Withdrawals'', ''Deposits'']"

definition no_sheets :: workbook where
  "no_sheets =
     \<lparr>sheet_Sales = None, sheet_Labour = None, sheet_rent = None,
      sheet_Purchase_of_stock = None, sheet_Utilities = None, sheet_Saving = None,
      sheet_Expense = None\<rparr>"

text \<open>A \<^verbatim>\<open>Sales\<close> sheet with one row whose amount is \<open>-100\<close> (a reversal).\<close>

definition reversal_workbook :: "workbook option" where
  "reversal_workbook =
     Some (no_sheets\<lparr>sheet_Sales :=
       Some \<lparr>width = 5,
             prows = [\<lparr>p_date = Some (Timestamp 2025 3 1), p_amount = Some (- 100),
                       p_details = Some ''reversal''\<rparr>]\<rparr>\<rparr>)"

definition reversal_processor :: processor where
  "reversal_processor = snd (load_and_clean_data reversal_workbook init)"

text \<open>A workbook whose only sheet is a \<^verbatim>\<open>Saving\<close> sheet with the statement columns.\<close>

definition saving_workbook :: "nrow list \<Rightarrow> workbook option" where
  "saving_workbook rows =
     Some (no_sheets\<lparr>sheet_Saving := Some \<lparr>columns = statement_columns, nrows = rows\<rparr>\<rparr>)"

text \<open>The records that the \<^verbatim>\<open>Saving\<close> block makes of a sheet with the single row \<open>r\<close>.\<close>

definition saving_row_records :: "nrow \<Rightarrow> entry list" where
  "saving_row_records r = contribution (savings_2025 (saving_workbook [r]))"


text \<open>a deposit without a readable date,\<close>

definition undated_row :: nrow where
  "undated_row =
     \<lparr>tran_date = None, withdrawals = None, deposits = Some 100, narrative = Some ''deposit''\<rparr>"

text \<open>a deposit, a withdrawal, and a row with neither.\<close>

definition deposit_row :: nrow where
  "deposit_row =
     \<lparr>tran_date = Some (Timestamp 2025 1 15), withdrawals = None, deposits = Some 100,
      narrative = Some ''deposit''\<rparr>"



text \<open>A \<^verbatim>\<open>Saving\<close> sheet with a deposit and without the column \<^verbatim>\<open>Withdrawals\<close>.\<close>

definition no_withdrawals_workbook :: "workbook option" where
  "no_withdrawals_workbook =
     Some (no_sheets\<lparr>sheet_Saving :=
       Some \<lparr>columns = [''Tran Date'', ''Transaction Narrative'', ''Deposits''],
             nrows = [deposit_row]\<rparr>\<rparr>)"

text \<open>The same workbook without its \<^verbatim>\<open>Saving\<close> sheet.\<close>

definition no_saving_workbook :: "workbook option" where
  "no_saving_workbook = Some no_sheets"

text \<open>A workbook with a sale, a utility bill and a deposit.\<close>

definition sample_workbook :: "workbook option" where
  "sample_workbook =
     Some (no_sheets
       \<lparr>sheet_Sales :=
          Some \<lparr>width = 5,
                prows = [\<lparr>p_date = Some (Timestamp 2025 1 10), p_amount = Some 2500,
                          p_details = Some ''till''\<rparr>,
                         \<lparr>p_date = None, p_amount = Some 40, p_details = None\<rparr>]\<rparr>,
        sheet_Utilities :=
          Some \<lparr>columns = statement_columns,
                nrows = [\<lparr>tran_date = Some (Timestamp 2025 1 12), withdrawals = Some 300,
                          deposits = None, narrative = Some ''power''\<rparr>]\<rparr>,
        sheet_Saving :=
          Some \<lparr>columns = statement_columns, nrows = [deposit_row]\<rparr>\<rparr>)"

definition sample_processor :: processor where
  "sample_processor = snd (load_and_clean_data sample_workbook init)"

text \<open>The records of its sale and of its utility bill.\<close>

definition sample_sale :: transaction where
  "sample_sale =
     \<lparr>Date = Some (Timestamp 2025 1 10), Amount = 2500, Year = 2025, Category = ''Sales'',
      Type = ''Income'', Details = Some ''till'', Month = Some (2025, 1), Quarter = Some (2025, 1)\<rparr>"

definition sample_bill :: transaction where
  "sample_bill =
     \<lparr>Date = Some (Timestamp 2025 1 12), Amount = 300, Year = 2025, Category = ''Utilities'',
      Type = ''Expense'', Details = Some ''power'', Month = Some (2025, 1),
      Quarter = Some (2025, 1)\<rparr>"

section \<open>Properties of the rounding\<close>

lemma floorlog2_eqI: "2 ^ (w - 1) \<le> n \<Longrightarrow> n < 2 ^ w \<Longrightarrow> floorlog 2 n = w"
  using floorlog_leI [of n 2 w] floorlog_geI [of 2 w n] by simp

lemma pow2_pos: "0 < pow2 e"
  by (simp add: pow2_def)

lemma ilog2_ge1:
  assumes "1 \<le> x" and "2 ^ k \<le> x" and "x < 2 ^ Suc k"
  shows "ilog2 x = int k"
proof -
  have "(2::int) ^ k \<le> \<lfloor>x\<rfloor>"
    using assms(2) by (simp add: le_floor_iff)
  moreover have nn: "0 \<le> \<lfloor>x\<rfloor>" using assms(1) by simp
  ultimately have a: "2 ^ k \<le> nat \<lfloor>x\<rfloor>"
    by (simp add: le_nat_iff)
  have "\<lfloor>x\<rfloor> < 2 ^ Suc k"
    using assms(3) by (simp add: floor_less_iff)
  then have b: "nat \<lfloor>x\<rfloor> < 2 ^ Suc k"
    using nn by (simp add: nat_less_iff)
  have "floorlog 2 (nat \<lfloor>x\<rfloor>) = Suc k"
    using a b by (intro floorlog2_eqI) simp_all
  then show ?thesis
    using assms(1) by (simp add: ilog2_def)
qed

lemma ilog2_lt1:
  assumes "0 < x" and "x < 1" and "1 / 2 ^ k \<le> x" and "x < 1 / 2 ^ (k - 1)" and "0 < k"
  shows "ilog2 x = - int k"
proof -
  define y where "y = 1 / x"
  define m where "m = \<lceil>y\<rceil> - 1"
  have y_le: "y \<le> 2 ^ k"
    using assms(1,3) by (simp add: y_def field_simps)
  have y_gt: "2 ^ (k - 1) < y"
    using assms(1,4) by (simp add: y_def field_simps)
  have m_lt: "of_int m < y" by (simp add: m_def) linarith
  have m_ge: "y \<le> of_int m + 1" by (simp add: m_def)
  have "of_int m < (2::rat) ^ k" using m_lt y_le by linarith
  then have "(of_int m :: rat) < of_int (2 ^ k)" by simp
  then have u: "m < 2 ^ k" by (simp only: of_int_less_iff)
  have "(of_int (2 ^ (k - 1)) :: rat) < of_int (m + 1)" using y_gt m_ge by simp
  then have "2 ^ (k - 1) < m + 1" by (simp only: of_int_less_iff)
  then have l: "2 ^ (k - 1) \<le> m" by simp
  have "(0::int) < 2 ^ (k - 1)" by simp
  then have mpos: "0 < m" using l by linarith
  have "floorlog 2 (nat m) = k"
  proof (rule floorlog2_eqI)
    show "2 ^ (k - 1) \<le> nat m" using l mpos by (simp add: le_nat_iff)
    show "nat m < 2 ^ k" using u mpos by (simp add: nat_less_iff)
  qed
  then show ?thesis
    using assms(2) by (simp add: ilog2_def m_def y_def)
qed

lemma ilog2_eqI:
  assumes "pow2 e \<le> x" and "x < pow2 (e + 1)"
  shows "ilog2 x = e"
proof (cases "0 \<le> e")
  case True
  have "1 \<le> pow2 e" using True by (simp add: pow2_def)
  then have "1 \<le> x" using assms(1) by simp
  moreover have "2 ^ nat e \<le> x" using assms(1) True by (simp add: pow2_def)
  moreover have "x < 2 ^ Suc (nat e)"
    using assms(2) True by (simp add: pow2_def nat_add_distrib)
  ultimately show ?thesis using ilog2_ge1 [of x "nat e"] True by simp
next
  case False
  define k where "k = nat (- e)"
  have k: "0 < k" "e = - int k" using False by (simp_all add: k_def)
  have xpos: "0 < x" using assms(1) pow2_pos [of e] by simp
  have a: "1 / 2 ^ k \<le> x" using assms(1) False by (simp add: pow2_def k_def)
  have b: "x < 1 / 2 ^ (k - 1)"
  proof (cases "e = - 1")
    case True
    then show ?thesis using assms(2) by (simp add: pow2_def k_def)
  next
    case False
    then have "nat (- (e + 1)) = k - 1" using k by simp
    then show ?thesis using assms(2) False k by (simp add: pow2_def)
  qed
  have "x < 1"
  proof -
    have "(1::rat) \<le> 2 ^ (k - 1)" by simp
    then have "1 / 2 ^ (k - 1) \<le> (1::rat)" by (simp add: field_simps)
    then show ?thesis using b by linarith
  qed
  then show ?thesis using ilog2_lt1 [OF xpos _ a b k(1)] k(2) by simp
qed

lemma fl_eqI:
  assumes "pow2 e \<le> x" and "x < pow2 (e + 1)" and "- 1022 \<le> e"
  shows "fl x = of_int (round_half_even (x / pow2 (e - 52))) * pow2 (e - 52)"
proof -
  have xpos: "0 < x" using assms(1) pow2_pos [of e] by simp
  then have "ilog2 \<bar>x\<bar> = e" using ilog2_eqI [OF assms(1,2)] by simp
  then show ?thesis using xpos assms(3) by (simp add: fl_def Let_def)
qed

lemma round_half_even_nonneg: "0 \<le> q \<Longrightarrow> 0 \<le> round_half_even q"
  by (auto simp: round_half_even_def Let_def)

lemma round_half_even_of_int: "round_half_even (of_int m) = m"
  by (simp add: round_half_even_def)

lemma round_half_even_eqI:
  assumes "\<bar>q - of_int n\<bar> < 1 / 2"
  shows "round_half_even q = n"
proof -
  have lo: "of_int n - 1 / 2 < q" and hi: "q < of_int n + 1 / 2"
    using assms by linarith+
  have "\<lfloor>q\<rfloor> = n \<or> \<lfloor>q\<rfloor> = n - 1"
    using lo hi by (auto simp: floor_eq_iff)
  then show ?thesis
  proof
    assume f: "\<lfloor>q\<rfloor> = n"
    have "q - of_int n < 1 / 2" using hi by linarith
    then show ?thesis unfolding round_half_even_def Let_def f by (simp only: if_True)
  next
    assume f: "\<lfloor>q\<rfloor> = n - 1"
    have a: "\<not> q - of_int (n - 1) < 1 / 2" using lo by simp
    have b: "1 / 2 < q - of_int (n - 1)" using lo by simp
    show ?thesis unfolding round_half_even_def Let_def f using a b by (simp only: if_True if_False)
  qed
qed

lemma fl_0: "fl 0 = 0"
  by (simp add: fl_def)

lemma fl_neg: "fl (- x) = - fl x"
  by (simp add: fl_def Let_def)

lemma fl_nonneg: "0 \<le> x \<Longrightarrow> 0 \<le> fl x"
proof (cases "x = 0")
  case True
  then show ?thesis by (simp add: fl_def)
next
  case False
  assume "0 \<le> x"
  then have x: "0 < x" using False by simp
  define u where "u = pow2 (max (ilog2 \<bar>x\<bar>) (- 1022) - 52)"
  have u: "0 < u" by (simp add: u_def pow2_pos)
  have "0 \<le> x / u" using x u by simp
  then have "0 \<le> round_half_even (x / u)" by (rule round_half_even_nonneg)
  then have "0 \<le> of_int (round_half_even (x / u)) * u" using u by simp
  then show ?thesis using x by (simp add: fl_def Let_def u_def)
qed

lemma fl_near:
  assumes "pow2 e \<le> x" and "x < pow2 (e + 1)" and "- 1022 \<le> e"
    and "\<bar>x / pow2 (e - 52) - of_int n\<bar> < 1 / 2"
  shows "fl x = of_int n * pow2 (e - 52)"
  using fl_eqI [OF assms(1-3)] round_half_even_eqI [OF assms(4)] by simp

text \<open>A natural number below \<open>2 ^ 53\<close> is a double.\<close>

lemma fl_of_nat:
  assumes "k < 2 ^ 53"
  shows "fl (of_nat k) = of_nat k"
proof (cases "k = 0")
  case True
  then show ?thesis by (simp add: fl_def)
next
  case False
  define w where "w = floorlog 2 k"
  have kpos: "0 < k" using False by simp
  have bounds: "2 ^ (w - 1) \<le> k" "k < 2 ^ w"
    using floorlog_bounds [of k 2] kpos by (simp_all add: w_def)
  have wpos: "0 < w" using kpos by (simp add: w_def floorlog_def)
  have w53: "w \<le> 53" using floorlog_leI [of k 2 53] assms by (simp add: w_def)
  define j where "j = 53 - w"
  have lo: "pow2 (int w - 1) \<le> of_nat k"
  proof -
    have "(of_nat (2 ^ (w - 1)) :: rat) \<le> of_nat k" using bounds(1) by (simp only: of_nat_le_iff)
    moreover have "nat (int w - 1) = w - 1" by simp
    ultimately show ?thesis using wpos by (simp add: pow2_def)
  qed
  have hi: "of_nat k < pow2 (int w - 1 + 1)"
  proof -
    have "(of_nat k :: rat) < of_nat (2 ^ w)" using bounds(2) by (simp only: of_nat_less_iff)
    then show ?thesis by (simp add: pow2_def)
  qed
  have u: "pow2 (int w - 1 - 52) = 1 / 2 ^ j"
  proof (cases "w = 53")
    case True
    then show ?thesis by (simp add: pow2_def j_def)
  next
    case False
    then have "w < 53" using w53 by simp
    then have "nat (53 - int w) = j" by (simp add: j_def)
    then show ?thesis using \<open>w < 53\<close> by (simp add: pow2_def)
  qed
  have "(of_nat k :: rat) / (1 / 2 ^ j) = of_int (int k * 2 ^ j)" by simp
  then have "fl (of_nat k) = of_int (int k * 2 ^ j) * (1 / 2 ^ j)"
    using fl_eqI [OF lo hi] wpos u by (simp only: round_half_even_of_int)
  then show ?thesis by simp
qed

lemma fl_numeral [simp]: "(numeral n :: nat) < 2 ^ 53 \<Longrightarrow> fl (numeral n) = numeral n"
  using fl_of_nat [of "numeral n"] by simp

lemma fl_1 [simp]: "fl 1 = 1"
  using fl_of_nat [of 1] by simp

lemma fsub_0_0: "fsub 0 0 = 0"
  by (simp add: fsub_def fl_0)

lemma fl_minus_100: "fl (- 100) = - 100"
  by (simp add: fl_neg)

subsection \<open>The arithmetic on the official figures\<close>

lemma fadd_0 [simp]: "fadd 0 x = fl x"
  by (simp add: fadd_def)

lemma fadd_numeral [simp]:
  "(numeral a + numeral b :: nat) < 2 ^ 53 \<Longrightarrow> fadd (numeral a) (numeral b) = numeral a + numeral b"
  using fl_of_nat [of "numeral a + numeral b"] by (simp add: fadd_def)

lemma fsub_gross [simp]: "fsub 22619122 17244564 = 5374558"
  by (simp add: fsub_def)

text \<open>The literal \<^verbatim>\<open>163557.65\<close>.\<close>

lemma fl_transaction_costs [simp]: "fl (3271153 / 20) = 5619798062084915 / 34359738368"
  by (subst fl_near [where e = 17 and n = 5619798062084915]) (simp_all add: pow2_def)

text \<open>\<^verbatim>\<open>19066489 + 163557.65\<close>, printed \<^verbatim>\<open>19230046.65\<close>.\<close>

lemma fadd_expenses_2024 [simp]:
  "fadd 19066489 (5619798062084915 / 34359738368) = 2581013170697011 / 134217728"
  unfolding fadd_def
  by (subst fl_near [where e = 24 and n = 5162026341394022]) (simp_all add: pow2_def)

text \<open>\<^verbatim>\<open>22619122 - 19230046.65\<close>, printed \<^verbatim>\<open>3389075.3500000015\<close>.\<close>

lemma fsub_net_2024 [simp]:
  "fsub 22619122 (2581013170697011 / 134217728) = 454873993497805 / 134217728"
  unfolding fsub_def
  by (subst fl_near [where e = 21 and n = 7277983895964880]) (simp_all add: pow2_def)

text \<open>The literal \<^verbatim>\<open>3389075.35\<close>.\<close>

lemma fl_official_net [simp]: "fl (67781507 / 20) = 7277983895964877 / 2147483648"
  by (subst fl_near [where e = 21 and n = 7277983895964877]) (simp_all add: pow2_def)

text \<open>The literal \<^verbatim>\<open>1985482.65\<close>.\<close>

lemma fl_official_opex [simp]: "fl (39709653 / 20) = 4263791524262707 / 2147483648"
  by (subst fl_near [where e = 20 and n = 8527583048525414]) (simp_all add: pow2_def)

lemma fadd_opex [simp]:
  "fadd 1821925 (5619798062084915 / 34359738368) = 4263791524262707 / 2147483648"
  unfolding fadd_def
  by (subst fl_near [where e = 20 and n = 8527583048525414]) (simp_all add: pow2_def)

lemma fsub_official_net [simp]:
  "fsub 5374558 (4263791524262707 / 2147483648) = 7277983895964877 / 2147483648"
  unfolding fsub_def
  by (subst fl_near [where e = 21 and n = 7277983895964877]) (simp_all add: pow2_def)

text \<open>\<^verbatim>\<open>5374558 / 22619122 * 100\<close>, printed \<^verbatim>\<open>23.761125652887852\<close>.\<close>

lemma fdiv_gross [simp]: "fdiv 5374558 22619122 = 8560847730899941 / 36028797018963968"
  unfolding fdiv_def
  by (subst fl_near [where e = "- 3" and n = 8560847730899941]) (simp_all add: pow2_def)

lemma fmul_gross [simp]:
  "fmul (8560847730899941 / 36028797018963968) 100 = 6688162289765579 / 281474976710656"
  unfolding fmul_def
  by (subst fl_near [where e = 4 and n = 6688162289765579]) (simp_all add: pow2_def)

text \<open>The literal \<^verbatim>\<open>23.8\<close>.\<close>

lemma fl_gross_margin [simp]: "fl (119 / 5) = 6699104445713613 / 281474976710656"
  by (subst fl_near [where e = 4 and n = 6699104445713613]) (simp_all add: pow2_def)

text \<open>\<^verbatim>\<open>3389075.35 / 22619122 * 100\<close>, printed \<^verbatim>\<open>14.98323122356385\<close>.\<close>

lemma fdiv_net [simp]:
  "fdiv (7277983895964877 / 2147483648) 22619122 = 5398277964419851 / 36028797018963968"
  unfolding fdiv_def
  by (subst fl_near [where e = "- 3" and n = 5398277964419851]) (simp_all add: pow2_def)

lemma fmul_net [simp]:
  "fmul (5398277964419851 / 36028797018963968) 100 = 8434809319406017 / 562949953421312"
  unfolding fmul_def
  by (subst fl_near [where e = 3 and n = 8434809319406017]) (simp_all add: pow2_def)

lemma one_decimal_gross [simp]:
  "one_decimal (6688162289765579 / 281474976710656) = 6699104445713613 / 281474976710656"
proof -
  have "round_half_even (6688162289765579 / 281474976710656 * 10) = 238"
    by (rule round_half_even_eqI) simp
  then show ?thesis by (simp add: one_decimal_def)
qed

lemma one_decimal_net [simp]: "one_decimal (8434809319406017 / 562949953421312) = 15"
proof -
  have "round_half_even (8434809319406017 / 562949953421312 * 10) = 150"
    by (rule round_half_even_eqI) simp
  then show ?thesis by (simp add: one_decimal_def)
qed

subsection \<open>The operations on float64 at finite values\<close>

lemma overflow_finite: "- (2 ^ 1024) < x \<Longrightarrow> x < 2 ^ 1024 \<Longrightarrow> overflow x = Finite x"
  by (simp add: overflow_def)

lemma series_sum_Nil: "series_sum [] = Finite 0"
  by (simp add: series_sum_def in_order_def fl_0 overflow_def)

lemma f64_sub_0_0: "f64_sub (Finite 0) (Finite 0) = Finite 0"
  by (simp add: fsub_0_0 overflow_def)

text \<open>The double \<^verbatim>\<open>19230046.65\<close>.\<close>

lemma fl_expenses_2024 [simp]:
  "fl (2581013170697011 / 134217728) = 2581013170697011 / 134217728"
  by (subst fl_near [where e = 24 and n = 5162026341394022]) (simp_all add: pow2_def)

text \<open>
  Eight entries \<^verbatim>\<open>0.1\<close> go to the eight accumulators, which the tree adds without
  rounding: their sum is \<^verbatim>\<open>0.8\<close>, where adding them in order gives
  \<^verbatim>\<open>0.7999999999999999\<close>.
\<close>

lemma fl_tenth: "fl (1 / 10) = 3602879701896397 / 36028797018963968"
  by (subst fl_near [where e = "- 4" and n = 7205759403792794]) (simp_all add: pow2_def)

lemma fl_two_tenths:
  "fl (3602879701896397 / 18014398509481984) = 3602879701896397 / 18014398509481984"
  by (subst fl_near [where e = "- 3" and n = 7205759403792794]) (simp_all add: pow2_def)

lemma fl_four_tenths:
  "fl (3602879701896397 / 9007199254740992) = 3602879701896397 / 9007199254740992"
  by (subst fl_near [where e = "- 2" and n = 7205759403792794]) (simp_all add: pow2_def)

lemma fl_eight_tenths:
  "fl (3602879701896397 / 4503599627370496) = 3602879701896397 / 4503599627370496"
  by (subst fl_near [where e = "- 1" and n = 7205759403792794]) (simp_all add: pow2_def)

lemma fl_literal_eight_tenths: "fl (4 / 5) = 3602879701896397 / 4503599627370496"
  by (subst fl_near [where e = "- 1" and n = 7205759403792794]) (simp_all add: pow2_def)

lemma series_sum_eight_tenths:
  "series_sum (replicate 8 (fl 0.1)) = Finite (fl 0.8)"
  by (simp add: series_sum_def pairwise_sum.simps in_order_def tree8_def fadd_def
      overflow_finite fl_tenth fl_two_tenths fl_four_tenths fl_eight_tenths
      fl_literal_eight_tenths eval_nat_numeral)

text \<open>
  The sum of two doubles \<^verbatim>\<open>2.0 ** 1023\<close> is \<^verbatim>\<open>inf\<close>, and the margin of an infinite
  income without expenses is \<^verbatim>\<open>inf / inf * 100\<close>, which is \<^verbatim>\<open>nan\<close>.
\<close>

lemma fl_pow2_1023: "fl (2 ^ 1023) = 2 ^ 1023"
  by (subst fl_near [where e = 1023 and n = "2 ^ 52"]) (simp_all add: pow2_def)

lemma fl_pow2_1024: "fl (2 ^ 1024) = 2 ^ 1024"
  by (subst fl_near [where e = 1024 and n = "2 ^ 52"]) (simp_all add: pow2_def)

lemma series_sum_overflow: "series_sum [2 ^ 1023, 2 ^ 1023] = PosInf"
proof -
  have "(2 ^ 1023 + 2 ^ 1023 :: rat) = 2 ^ 1024" by simp
  then have twice: "fadd (2 ^ 1023) (2 ^ 1023) = 2 ^ 1024"
    by (simp only: fadd_def fl_pow2_1024)
  have "(0 + 2 ^ 1023 :: rat) = 2 ^ 1023" by simp
  then have once: "fadd 0 (2 ^ 1023) = 2 ^ 1023"
    by (simp only: fadd_def fl_pow2_1023)
  have zero: "fadd 0 0 = 0"
    by (simp add: fadd_def fl_0)
  have finite: "overflow (2 ^ 1023) = Finite (2 ^ 1023)" "overflow 0 = Finite 0"
    by (simp_all add: overflow_def)
  have infinite: "overflow (2 ^ 1024) = PosInf"
    by (simp add: overflow_def)
  have "pairwise_sum [2 ^ 1023, 2 ^ 1023] = PosInf"
    by (subst pairwise_sum.simps)
       (simp add: in_order_def once twice finite infinite fl_pow2_1023 del: power_numeral)
  then show ?thesis
    by (simp only: series_sum_def f64_add.simps)
qed

lemma margin_of_infinite_income:
  "f64_positive PosInf
   \<and> f64_mul (f64_div (f64_sub PosInf (Finite 0)) PosInf) (Finite 100) = NaN"
  by simp

text \<open>The facts that evaluate \<open>calculate_kpis\<close> on a frame that is given.\<close>

lemmas kpi_eval =
  calculate_kpis_def amount_sum_def series_sum_def pairwise_sum.simps in_order_def
  overflow_finite

section \<open>The source blocks only append\<close>

text \<open>
  Every block leaves the frames it finds in place and adds its own behind them, and what
  it adds and whether it sets the flag do not depend on the state it starts from.
\<close>

lemma appends_official_2024: "appends official_2024"
  by (simp add: appends_def official_2024_def fresh_def)

lemma appends_try_source: "appends (try_source r)"
  by (cases r) (simp_all add: appends_def try_source_def fresh_def)

lemma appends_savings_2025: "appends (savings_2025 wb)"
proof (cases "read_excel wb sheet_Saving ''Saving''")
  case (Inl e)
  then show ?thesis by (simp add: appends_def savings_2025_def fresh_def)
next
  case (Inr df)
  then show ?thesis by (auto simp: appends_def savings_2025_def fresh_def Let_def)
qed

lemma appends_sources: "b \<in> set (sources wb) \<Longrightarrow> appends b"
  by (auto simp: sources_def appends_official_2024 appends_try_source appends_savings_2025)

lemma foldl_appends:
  assumes "\<And>b. b \<in> set bs \<Longrightarrow> appends b"
  shows "all_data (foldl (\<lambda>st block. block st) st bs)
           = all_data st @ concat (map (\<lambda>b. all_data (b fresh)) bs)
         \<and> success (foldl (\<lambda>st block. block st) st bs)
           = (success st \<or> list_ex sets_flag bs)"
  using assms
proof (induction bs arbitrary: st)
  case Nil
  then show ?case by simp
next
  case (Cons b bs)
  have b: "appends b" using Cons.prems by simp
  have ih: "all_data (foldl (\<lambda>st block. block st) (b st) bs)
              = all_data (b st) @ concat (map (\<lambda>b. all_data (b fresh)) bs)
            \<and> success (foldl (\<lambda>st block. block st) (b st) bs)
              = (success (b st) \<or> list_ex sets_flag bs)"
    using Cons.IH [of "b st"] Cons.prems by simp
  from b have "all_data (b st) = all_data st @ all_data (b fresh)
      \<and> success (b st) = (success st \<or> success (b fresh))"
    unfolding appends_def by blast
  moreover have "sets_flag b = success (b fresh)" by (simp add: sets_flag_def)
  ultimately show ?case using ih by simp
qed

lemma concat_concat_map: "concat (concat (map f xs)) = concat (map (\<lambda>x. concat (f x)) xs)"
  by (induction xs) simp_all

lemma all_data_load_sources:
  "concat (all_data (load_sources wb)) = concat (map contribution (sources wb))"
proof -
  have "all_data (load_sources wb) = concat (map (\<lambda>b. all_data (b fresh)) (sources wb))"
    using foldl_appends [of "sources wb" fresh] appends_sources
    by (simp add: load_sources_def fresh_def)
  moreover have "contribution = (\<lambda>b. concat (all_data (b fresh)))"
    by (rule ext) (simp add: contribution_def)
  ultimately show ?thesis by (simp add: concat_concat_map)
qed

lemma success_load_sources: "success (load_sources wb) = list_ex sets_flag (sources wb)"
  using foldl_appends [of "sources wb" fresh] appends_sources
  by (simp add: load_sources_def fresh_def)

lemma sets_flag_official_2024: "sets_flag official_2024"
  by (simp add: sets_flag_def official_2024_def)

lemma contribution_official_2024:
  "contribution official_2024 = sales_data # cogs_data # map expense_data expenses_2024"
  by (simp add: contribution_def official_2024_def fresh_def expenses_2024_def)

lemma load_sources_succeeds: "success (load_sources wb)"
  by (simp add: success_load_sources sources_def sets_flag_official_2024)

lemma all_data_load_sources_nonempty: "all_data (load_sources wb) \<noteq> []"
proof
  assume "all_data (load_sources wb) = []"
  then have "concat (map contribution (sources wb)) = []"
    using all_data_load_sources [of wb] by simp
  then show False by (simp add: sources_def contribution_official_2024)
qed

text \<open>The load always succeeds, and the ledger is what the eight blocks contribute.\<close>

lemma load_and_clean_data_eq:
  "load_and_clean_data wb self =
     (True, self\<lparr>consolidated_data :=
        Some (map with_periods (concat (map contribution (sources wb))))\<rparr>)"
  using load_sources_succeeds [of wb] all_data_load_sources_nonempty [of wb]
  by (simp add: load_and_clean_data_def Let_def consolidate_def all_data_load_sources)

lemma contribution_try_source:
  "contribution (try_source r) = (case r of Inl e \<Rightarrow> [] | Inr df \<Rightarrow> df)"
  by (cases r) (simp_all add: contribution_def try_source_def fresh_def)

lemma sets_flag_try_source:
  "sets_flag (try_source r) = (case r of Inl e \<Rightarrow> False | Inr df \<Rightarrow> True)"
  by (cases r) (simp_all add: sets_flag_def try_source_def fresh_def)

lemma contribution_savings_2025:
  "contribution (savings_2025 wb) =
     (case read_excel wb sheet_Saving ''Saving'' of
        Inl e \<Rightarrow> []
      | Inr df \<Rightarrow>
          if ''Tran Date'' \<in> set (columns df) \<and> ''Deposits'' \<in> set (columns df)
          then
            let income_df = filter (\<lambda>r. positive (deposits r)) (nrows df);
                expense_df = filter (\<lambda>r. positive (withdrawals r)) (nrows df)
            in if income_df \<noteq> [] \<and> ''Transaction Narrative'' \<notin> set (columns df)
               then []
               else map savings_income income_df
                 @ (if ''Withdrawals'' \<in> set (columns df)
                       \<and> (expense_df = [] \<or> ''Transaction Narrative'' \<in> set (columns df))
                    then map savings_expense expense_df
                    else [])
          else [])"
proof (cases "read_excel wb sheet_Saving ''Saving''")
  case (Inl e)
  then show ?thesis by (simp add: contribution_def savings_2025_def fresh_def)
next
  case (Inr df)
  then show ?thesis by (auto simp: contribution_def savings_2025_def fresh_def Let_def)
qed

lemma sets_flag_savings_2025:
  "sets_flag (savings_2025 wb) =
     (case read_excel wb sheet_Saving ''Saving'' of
        Inl e \<Rightarrow> False
      | Inr df \<Rightarrow>
          ''Tran Date'' \<in> set (columns df) \<and> ''Deposits'' \<in> set (columns df)
          \<and> ''Withdrawals'' \<in> set (columns df)
          \<and> (''Transaction Narrative'' \<in> set (columns df)
              \<or> (filter (\<lambda>r. positive (deposits r)) (nrows df) = []
                  \<and> filter (\<lambda>r. positive (withdrawals r)) (nrows df) = [])))"
proof (cases "read_excel wb sheet_Saving ''Saving''")
  case (Inl e)
  then show ?thesis by (simp add: sets_flag_def savings_2025_def fresh_def)
next
  case (Inr df)
  then show ?thesis by (auto simp: sets_flag_def savings_2025_def fresh_def Let_def)
qed

section \<open>The loader on the example workbooks\<close>

lemmas loader_eval =
  load_and_clean_data_eq sources_def contribution_official_2024 contribution_try_source
  contribution_savings_2025 sales_2025_def labour_2025_def rent_2025_def
  stock_purchase_2025_def utilities_2025_def savings_2025_def other_expenses_2025_def
  statement_sheet_def read_excel_def keep_row_def utilities_row_def positive_def
  savings_income_def savings_expense_def fillna0_def with_periods_def expenses_2024_def
  expense_data_def sales_data_def cogs_data_def init_def Let_def no_sheets_def
  statement_columns_def

lemmas filter_defs =
  filter_data_def year_given_def year_matches_def categories_given_def category_isin_def
  type_given_def

lemmas sample_eval =
  sample_processor_def sample_workbook_def deposit_row_def loader_eval fadd_def filter_defs

lemma sample_ledger:
  "consolidated_data sample_processor = Some (filter_data sample_processor None None None)"
  by (simp add: sample_eval)

lemma sample_ledger_records:
  "consolidated_data (snd (load_and_clean_data sample_workbook init))
     = Some (filter_data sample_processor None None None)"
  using sample_ledger by (simp only: sample_processor_def)

lemma sample_years:
  "map Year (filter_data sample_processor None None None)
     = [2024, 2024, 2024, 2024, 2024, 2024, 2025, 2025, 2025]"
  by (simp add: sample_eval)

lemma sample_filtered:
  "map Category (filter_data sample_processor (Some (YInt 2025)) (Some [''Sales'', ''Savings''])
     (Some ''Income'')) = [''Sales'', ''Savings'']"
  by (simp add: sample_eval)

lemma sample_2024:
  "length (filter_data sample_processor (Some (YInt 2024)) None None) = 6"
  by (simp add: sample_eval)

lemma sample_members:
  "sample_sale \<in> set (filter_data sample_processor None None None)"
  "sample_bill \<in> set (filter_data sample_processor None None None)"
  by (simp_all add: sample_eval sample_sale_def sample_bill_def to_period_M_def to_period_Q_def)

lemma sample_copied_nonneg: "list_all nonneg_cell (copied_amounts sample_workbook)"
  by (simp add: sample_workbook_def copied_amounts_def prows_of_def nrows_of_def nonneg_cell_def
      no_sheets_def)



section \<open>C1: the 2024 ledger against the official net profit\<close>

lemma official_only_kpis:
  "calculate_kpis (filter_data official_only (Some (YInt 2024)) None None) ''net_profit''
     = Some (Finite (454873993497805 / 134217728))"
  by (simp add: official_only_def loader_eval filter_defs kpi_eval)

lemma official_net: "get_official_2024_summary ''net_profit'' = Some (7277983895964877 / 2147483648)"
  by (simp add: get_official_2024_summary_def)

text \<open>
  C1 as stated fails: on the ledger of Source A alone, the net profit that
  \<open>calculate_kpis\<close> computes for 2024 is not the number stored under \<^verbatim>\<open>net_profit\<close>
  in the official summary.
\<close>

theorem kpis_2024_net_profit_counterexample:
  "calculate_kpis (filter_data official_only (Some (YInt 2024)) None None) ''net_profit''
     \<noteq> map_option Finite (get_official_2024_summary ''net_profit'')"
  by (simp add: official_only_kpis official_net)

text \<open>
  C1, amended: on the ledger of Source A alone, \<open>calculate_kpis\<close> for 2024 yields the
  double \<^verbatim>\<open>3389075.3500000015\<close>, which is three units in the last place (\<open>3 / 2 ^ 31\<close>)
  above the official \<^verbatim>\<open>net_profit\<close>, the double nearest to 3,389,075.35. Both are
  within \<open>2 / 10 ^ 9\<close> of 3,389,075.35, which is the exact value of
  22,619,122 - 17,244,564 - 601,155 - 192,000 - 1,028,770 - 163,557.65.
\<close>

theorem kpis_2024_net_profit_close:
  "\<exists>k off. calculate_kpis (filter_data official_only (Some (YInt 2024)) None None) ''net_profit''
       = Some (Finite k)
     \<and> get_official_2024_summary ''net_profit'' = Some off
     \<and> k - off = 3 / 2 ^ 31
     \<and> \<bar>k - 3389075.35\<bar> < 2 / 10 ^ 9
     \<and> \<bar>off - 3389075.35\<bar> < 1 / 10 ^ 9
     \<and> (22619122 - 17244564 - 601155 - 192000 - 1028770 - 163557.65 :: rat) = 3389075.35"
  by (rule exI [of _ "454873993497805 / 134217728"],
      rule exI [of _ "7277983895964877 / 2147483648"])
     (simp add: official_only_kpis official_net)

section \<open>C2: the records of the ledger\<close>

lemma copied_nonneg:
  "Some x \<in> set (copied_amounts wb) \<Longrightarrow> list_all nonneg_cell (copied_amounts wb) \<Longrightarrow> 0 \<le> x"
  by (auto simp: list_all_iff nonneg_cell_def)

lemma keep_row_entry:
  "e \<in> set (keep_row c t d a det) \<Longrightarrow>
     Category e = c \<and> Type e = t \<and> Year e = 2025 \<and> a = Some (Amount e)"
  by (auto simp: keep_row_def split: option.splits)

lemma wellformed_copied:
  assumes "Category e \<in> {''Sales'', ''Labour'', ''Rent'', ''Stock Purchase'', ''Other Expenses''}"
    and "Type e = ''Income'' \<or> Type e = ''Expense''"
    and "Year e = 2025"
    and "Some (Amount e) \<in> set (copied_amounts wb)"
  shows "wellformed wb e"
  using assms copied_nonneg [of "Amount e" wb]
  by (auto simp: wellformed_def category_labels_def)

lemma wellformed_official:
  "e \<in> set (contribution official_2024) \<Longrightarrow> wellformed wb e"
  by (auto simp: contribution_official_2024 expenses_2024_def expense_data_def sales_data_def
      cogs_data_def wellformed_def category_labels_def)

lemma copied_sales:
  "r \<in> set (prows_of (sheet_Sales w)) \<Longrightarrow> p_amount r \<in> set (copied_amounts (Some w))"
  by (simp add: copied_amounts_def)

lemma copied_labour:
  "r \<in> set (nrows_of (sheet_Labour w)) \<Longrightarrow> withdrawals r \<in> set (copied_amounts (Some w))"
  by (simp add: copied_amounts_def)

lemma copied_rent:
  "r \<in> set (drop 1 (prows_of (sheet_rent w))) \<Longrightarrow> p_amount r \<in> set (copied_amounts (Some w))"
  by (simp add: copied_amounts_def)

lemma copied_stock_purchase:
  "r \<in> set (nrows_of (sheet_Purchase_of_stock w)) \<Longrightarrow>
     deposits r \<in> set (copied_amounts (Some w))"
  by (simp add: copied_amounts_def)

lemma copied_other_expenses:
  "r \<in> set (nrows_of (sheet_Expense w)) \<Longrightarrow> withdrawals r \<in> set (copied_amounts (Some w))"
  by (simp add: copied_amounts_def)

lemma wellformed_keep_row:
  assumes "e \<in> set (keep_row category type d a details)"
    and "a \<in> set (copied_amounts wb)"
    and "category \<in> {''Sales'', ''Labour'', ''Rent'', ''Stock Purchase'', ''Other Expenses''}"
    and "type = ''Income'' \<or> type = ''Expense''"
  shows "wellformed wb e"
proof -
  have e: "Category e = category" "Type e = type" "Year e = 2025" "a = Some (Amount e)"
    using keep_row_entry [OF assms(1)] by simp_all
  show ?thesis
  proof (rule wellformed_copied)
    show "Category e \<in> {''Sales'', ''Labour'', ''Rent'', ''Stock Purchase'', ''Other Expenses''}"
      using assms(3) by (simp only: e(1))
    show "Type e = ''Income'' \<or> Type e = ''Expense''"
      using assms(4) by (simp only: e(2))
    show "Year e = 2025" by (rule e(3))
    show "Some (Amount e) \<in> set (copied_amounts wb)"
      using assms(2) by (simp only: e(4))
  qed
qed

lemma sales_entry:
  assumes "sales_2025 wb = Inr fr" and "e \<in> set fr"
  shows "\<exists>w r. wb = Some w \<and> r \<in> set (prows_of (sheet_Sales w))
           \<and> e \<in> set (keep_row ''Sales'' ''Income'' (p_date r) (p_amount r) (p_details r))"
proof (cases wb)
  case None
  then show ?thesis using assms by (simp add: sales_2025_def read_excel_def)
next
  case (Some w)
  show ?thesis
  proof (cases "sheet_Sales w")
    case None
    then show ?thesis using assms Some by (simp add: sales_2025_def read_excel_def)
  next
    case (Some df)
    then show ?thesis
      using assms \<open>wb = Some w\<close>
      by (auto simp: sales_2025_def read_excel_def prows_of_def split: if_splits)
  qed
qed

lemma rent_entry:
  assumes "rent_2025 wb = Inr fr" and "e \<in> set fr"
  shows "\<exists>w r. wb = Some w \<and> r \<in> set (drop 1 (prows_of (sheet_rent w)))
           \<and> e \<in> set (keep_row ''Rent'' ''Expense'' (p_date r) (p_amount r) (p_details r))"
proof (cases wb)
  case None
  then show ?thesis using assms by (simp add: rent_2025_def read_excel_def)
next
  case (Some w)
  show ?thesis
  proof (cases "sheet_rent w")
    case None
    then show ?thesis using assms Some by (simp add: rent_2025_def read_excel_def)
  next
    case (Some df)
    then show ?thesis
      using assms \<open>wb = Some w\<close>
      by (auto simp: rent_2025_def read_excel_def prows_of_def split: if_splits)
  qed
qed

lemma statement_sheet_entry:
  assumes "statement_sheet (read_excel wb sheet name) col amount category = Inr fr"
    and "e \<in> set fr"
  shows "\<exists>w r. wb = Some w \<and> r \<in> set (nrows_of (sheet w))
           \<and> e \<in> set (keep_row category ''Expense'' (tran_date r) (amount r) (narrative r))"
proof (cases wb)
  case None
  then show ?thesis using assms by (simp add: statement_sheet_def read_excel_def)
next
  case (Some w)
  show ?thesis
  proof (cases "sheet w")
    case None
    then show ?thesis using assms Some by (simp add: statement_sheet_def read_excel_def)
  next
    case (Some df)
    then show ?thesis
      using assms \<open>wb = Some w\<close>
      by (auto simp: statement_sheet_def read_excel_def nrows_of_def split: if_splits)
  qed
qed

lemma wellformed_sales:
  assumes "sales_2025 wb = Inr fr" and "e \<in> set fr"
  shows "wellformed wb e"
proof -
  obtain w r where w: "wb = Some w" "r \<in> set (prows_of (sheet_Sales w))"
    "e \<in> set (keep_row ''Sales'' ''Income'' (p_date r) (p_amount r) (p_details r))"
    using sales_entry [OF assms] by blast
  show ?thesis
    using w(3) copied_sales [OF w(2)] unfolding w(1) by (rule wellformed_keep_row) simp_all
qed

lemma wellformed_rent:
  assumes "rent_2025 wb = Inr fr" and "e \<in> set fr"
  shows "wellformed wb e"
proof -
  obtain w r where w: "wb = Some w" "r \<in> set (drop 1 (prows_of (sheet_rent w)))"
    "e \<in> set (keep_row ''Rent'' ''Expense'' (p_date r) (p_amount r) (p_details r))"
    using rent_entry [OF assms] by blast
  show ?thesis
    using w(3) copied_rent [OF w(2)] unfolding w(1) by (rule wellformed_keep_row) simp_all
qed

lemma wellformed_labour:
  assumes "labour_2025 wb = Inr fr" and "e \<in> set fr"
  shows "wellformed wb e"
proof -
  obtain w r where w: "wb = Some w" "r \<in> set (nrows_of (sheet_Labour w))"
    "e \<in> set (keep_row ''Labour'' ''Expense'' (tran_date r) (withdrawals r) (narrative r))"
    using statement_sheet_entry [OF assms [unfolded labour_2025_def]] by blast
  show ?thesis
    using w(3) copied_labour [OF w(2)] unfolding w(1) by (rule wellformed_keep_row) simp_all
qed

lemma wellformed_stock_purchase:
  assumes "stock_purchase_2025 wb = Inr fr" and "e \<in> set fr"
  shows "wellformed wb e"
proof -
  obtain w r where w: "wb = Some w" "r \<in> set (nrows_of (sheet_Purchase_of_stock w))"
    "e \<in> set (keep_row ''Stock Purchase'' ''Expense'' (tran_date r) (deposits r) (narrative r))"
    using statement_sheet_entry [OF assms [unfolded stock_purchase_2025_def]] by blast
  show ?thesis
    using w(3) copied_stock_purchase [OF w(2)] unfolding w(1)
    by (rule wellformed_keep_row) simp_all
qed

lemma wellformed_other_expenses:
  assumes "other_expenses_2025 wb = Inr fr" and "e \<in> set fr"
  shows "wellformed wb e"
proof -
  obtain w r where w: "wb = Some w" "r \<in> set (nrows_of (sheet_Expense w))"
    "e \<in> set (keep_row ''Other Expenses'' ''Expense'' (tran_date r) (withdrawals r) (narrative r))"
    using statement_sheet_entry [OF assms [unfolded other_expenses_2025_def]] by blast
  show ?thesis
    using w(3) copied_other_expenses [OF w(2)] unfolding w(1)
    by (rule wellformed_keep_row) simp_all
qed

lemma utilities_row_entry:
  "e \<in> set (utilities_row r) \<Longrightarrow>
     Category e = ''Utilities'' \<and> Type e = ''Expense'' \<and> Year e = 2025 \<and> 0 < Amount e"
  by (auto simp: utilities_row_def Let_def split: option.splits if_splits)

lemma wellformed_utilities:
  assumes "utilities_2025 wb = Inr fr" and "e \<in> set fr"
  shows "wellformed wb e"
proof -
  obtain r where "e \<in> set (utilities_row r)"
    using assms
    by (auto simp: utilities_2025_def split: sum.splits if_splits)
  then show ?thesis
    using utilities_row_entry [of e r] by (simp add: wellformed_def category_labels_def)
qed

lemma wellformed_savings:
  assumes "e \<in> set (contribution (savings_2025 wb))"
  shows "wellformed wb e"
proof -
  have "\<exists>r. (positive (deposits r) \<and> e = savings_income r)
          \<or> (positive (withdrawals r) \<and> e = savings_expense r)"
    using assms
    by (auto simp: contribution_savings_2025 Let_def split: sum.splits if_splits)
  then show ?thesis
    by (auto simp: wellformed_def category_labels_def savings_income_def savings_expense_def
        positive_def fillna0_def split: option.splits)
qed

lemma wellformed_try_source:
  assumes "e \<in> set (contribution (try_source r))"
    and "\<And>fr. r = Inr fr \<Longrightarrow> e \<in> set fr \<Longrightarrow> wellformed wb e"
  shows "wellformed wb e"
  using assms by (cases r) (simp_all add: contribution_try_source)

lemma wellformed_sources:
  assumes "e \<in> set (concat (map contribution (sources wb)))"
  shows "wellformed wb e"
proof -
  from assms consider
      "e \<in> set (contribution official_2024)"
    | "e \<in> set (contribution (try_source (sales_2025 wb)))"
    | "e \<in> set (contribution (try_source (labour_2025 wb)))"
    | "e \<in> set (contribution (try_source (rent_2025 wb)))"
    | "e \<in> set (contribution (try_source (stock_purchase_2025 wb)))"
    | "e \<in> set (contribution (try_source (utilities_2025 wb)))"
    | "e \<in> set (contribution (savings_2025 wb))"
    | "e \<in> set (contribution (try_source (other_expenses_2025 wb)))"
    unfolding sources_def by auto
  then show ?thesis
  proof cases
    case 1 then show ?thesis by (rule wellformed_official)
  next
    case 2 then show ?thesis by (rule wellformed_try_source) (rule wellformed_sales)
  next
    case 3 then show ?thesis by (rule wellformed_try_source) (rule wellformed_labour)
  next
    case 4 then show ?thesis by (rule wellformed_try_source) (rule wellformed_rent)
  next
    case 5 then show ?thesis by (rule wellformed_try_source) (rule wellformed_stock_purchase)
  next
    case 6 then show ?thesis by (rule wellformed_try_source) (rule wellformed_utilities)
  next
    case 7 then show ?thesis by (rule wellformed_savings)
  next
    case 8 then show ?thesis by (rule wellformed_try_source) (rule wellformed_other_expenses)
  qed
qed

lemma wellformed_with_periods: "wellformed wb (with_periods e) = wellformed wb e"
  by (simp add: wellformed_def with_periods_def)

text \<open>
  C2 as stated fails for the amount: a \<^verbatim>\<open>Sales\<close> row with the amount \<open>-100\<close> becomes
  a record of the ledger with \<open>Amount = -100\<close>.
\<close>

theorem ledger_negative_amount_counterexample:
  "map_option (map Amount) (consolidated_data reversal_processor)
     = Some [22619122, 17244564, 601155, 192000, 1028770, fl 163557.65, - 100]
   \<and> map_option (map Category) (consolidated_data reversal_processor)
     = Some [''Sales'', ''Stock Purchase'', ''Labour'', ''Rent'', ''Transport'',
             ''Transaction Costs'', ''Sales'']"
  by (simp add: reversal_processor_def reversal_workbook_def loader_eval)

text \<open>
  C2, amended: every record of the consolidated ledger has a Category of the fixed label
  set and the Type Income or Expense. Its Amount is non-negative if it is a record of
  Source A (Year 2024) or of the \<^verbatim>\<open>Utilities\<close> or \<^verbatim>\<open>Saving\<close> sheet; the amounts of the
  sheets \<^verbatim>\<open>Sales\<close>, \<^verbatim>\<open>Labour\<close>, \<^verbatim>\<open>rent\<close>, \<^verbatim>\<open>Purchase of stock\<close> and
  \<^verbatim>\<open>Expense\<close> are copied with their sign, so every Amount of the ledger is non-negative
  when those amounts are.
\<close>

theorem ledger_records_wellformed:
  "consolidated_data (snd (load_and_clean_data wb self)) = Some ledger \<Longrightarrow> r \<in> set ledger \<Longrightarrow>
     Category r \<in> set category_labels
     \<and> (Type r = ''Income'' \<or> Type r = ''Expense'')
     \<and> (Year r = 2024 \<or> Category r \<in> {''Utilities'', ''Savings'', ''Savings Withdrawal''}
          \<longrightarrow> 0 \<le> Amount r)
     \<and> (list_all nonneg_cell (copied_amounts wb) \<longrightarrow> 0 \<le> Amount r)"
proof -
  assume a: "consolidated_data (snd (load_and_clean_data wb self)) = Some ledger"
    and b: "r \<in> set ledger"
  have "ledger = map with_periods (concat (map contribution (sources wb)))"
    using a by (simp add: load_and_clean_data_eq)
  then have "r \<in> with_periods ` set (concat (map contribution (sources wb)))"
    using b by (simp only: set_map)
  then obtain e where "e \<in> set (concat (map contribution (sources wb)))" "r = with_periods e"
    by blast
  then have "wellformed wb r"
    using wellformed_sources [of e wb] by (simp add: wellformed_with_periods)
  then show ?thesis by (simp add: wellformed_def)
qed

theorem ledger_records_wellformed_witness:
  "consolidated_data (snd (load_and_clean_data sample_workbook init))
     = Some (filter_data sample_processor None None None)
   \<and> sample_sale \<in> set (filter_data sample_processor None None None)
   \<and> sample_bill \<in> set (filter_data sample_processor None None None)
   \<and> list_all nonneg_cell (copied_amounts sample_workbook)
   \<and> Category sample_bill \<in> {''Utilities'', ''Savings'', ''Savings Withdrawal''}
   \<and> Category sample_sale \<in> set category_labels
   \<and> Type sample_sale = ''Income''
   \<and> 0 \<le> Amount sample_sale
   \<and> 0 \<le> Amount sample_bill"
  using ledger_records_wellformed [OF sample_ledger_records sample_members(1)]
    ledger_records_wellformed [OF sample_ledger_records sample_members(2)]
    sample_ledger_records sample_members sample_copied_nonneg
  by (simp add: sample_sale_def sample_bill_def)

section \<open>C3: the rows of the Saving sheet\<close>

lemma saving_row_records_eq:
  "saving_row_records r =
     (if positive (deposits r) then [savings_income r] else [])
     @ (if positive (withdrawals r) then [savings_expense r] else [])"
  by (simp add: saving_row_records_def saving_workbook_def contribution_savings_2025
      read_excel_def no_sheets_def statement_columns_def Let_def)





section \<open>C4: the key performance indicators\<close>

lemma reversal_2025:
  "map Amount (filter_data reversal_processor (Some (YInt 2025)) None None) = [- 100]
   \<and> map Type (filter_data reversal_processor (Some (YInt 2025)) None None) = [''Income'']"
  by (simp add: reversal_processor_def reversal_workbook_def loader_eval filter_defs)

text \<open>
  C4 as stated fails on a subset whose total income is negative: the total is not 0, and
  the margin is 0 where \<^verbatim>\<open>net_profit / total_income * 100\<close> is 100.
\<close>

theorem kpis_margin_counterexample:
  "calculate_kpis (filter_data reversal_processor (Some (YInt 2025)) None None) ''total_income''
     = Some (Finite (- 100))
   \<and> calculate_kpis (filter_data reversal_processor (Some (YInt 2025)) None None) ''net_profit''
     = Some (Finite (- 100))
   \<and> calculate_kpis (filter_data reversal_processor (Some (YInt 2025)) None None) ''profit_margin''
     = Some (Finite 0)
   \<and> f64_mul (f64_div (Finite (- 100)) (Finite (- 100))) (Finite 100) = Finite 100"
proof -
  obtain r where r: "filter_data reversal_processor (Some (YInt 2025)) None None = [r]"
    "Amount r = - 100" "Type r = ''Income''"
    using reversal_2025 by (auto simp: map_eq_Cons_conv)
  show ?thesis
    by (simp add: r kpi_eval Let_def fadd_def fsub_def fmul_def fdiv_def fl_minus_100 fl_0
        fl_numeral)
qed

text \<open>
  C4, amended: for every frame, \<open>calculate_kpis\<close> returns total_income = the sum of Amount
  over the records with Type Income, total_expenses = the sum over those with Type Expense,
  net_profit = total_income - total_expenses, and profit_margin =
  net_profit / total_income * 100 when total_income is positive and exactly 0 otherwise,
  that is whenever total_income is 0, negative or NaN. The sums are those of
  \<^verbatim>\<open>Series.sum()\<close>, numpy's pairwise sum of the column in binary64 (\<open>series_sum\<close>);
  the difference, the quotient and the product are those of binary64, with overflow to
  infinity and NaN, and no operation raises.
\<close>

theorem calculate_kpis_values:
  "(let total_income = series_sum (map Amount (filter (\<lambda>r. Type r = ''Income'') frame));
        total_expenses = series_sum (map Amount (filter (\<lambda>r. Type r = ''Expense'') frame));
        net_profit = f64_sub total_income total_expenses
    in calculate_kpis frame ''total_income'' = Some total_income
       \<and> calculate_kpis frame ''total_expenses'' = Some total_expenses
       \<and> calculate_kpis frame ''net_profit'' = Some net_profit
       \<and> calculate_kpis frame ''profit_margin''
           = Some (if f64_positive total_income
                   then f64_mul (f64_div net_profit total_income) (Finite 100)
                   else Finite 0))"
  by (cases "frame = []")
     (simp_all add: calculate_kpis_def amount_sum_def series_sum_Nil fsub_0_0 overflow_def
        Let_def)

section \<open>C5: rows without a date or an amount\<close>

text \<open>
  The sheets other than \<^verbatim>\<open>Saving\<close> drop a row without a date or without an amount.
\<close>

lemma keep_row_dropna: "d = None \<or> a = None \<Longrightarrow> keep_row category type d a details = []"
  by (auto simp: keep_row_def split: option.splits)

lemma utilities_row_dropna:
  "tran_date r = None \<or> (withdrawals r = None \<and> deposits r = None) \<Longrightarrow> utilities_row r = []"
  by (auto simp: utilities_row_def fillna0_def fadd_def fl_0 Let_def split: option.splits)

text \<open>
  C5 is violated by the \<^verbatim>\<open>Saving\<close> block, which coerces \<^verbatim>\<open>Tran Date\<close> like the other
  blocks but does not drop the rows without a date: a deposit whose date is missing or
  unparseable becomes a record of the ledger, with \<open>Date = None\<close>.
\<close>

theorem saving_keeps_undated_row:
  "saving_row_records undated_row
     = [\<lparr>Date = None, Amount = 100, Year = 2025, Category = ''Savings'', Type = ''Income'',
         Details = Some ''deposit''\<rparr>]
   \<and> map_option (map Date) (consolidated_data (snd (load_and_clean_data (saving_workbook [undated_row]) init)))
     = Some [Some year_end_2024, Some year_end_2024, Some year_end_2024, Some year_end_2024,
             Some year_end_2024, Some year_end_2024, None]"
  by (simp add: saving_row_records_eq undated_row_def positive_def savings_income_def
      fillna0_def saving_workbook_def loader_eval)

section \<open>C6: a source that fails\<close>

text \<open>
  A source whose block ends with \<open>try_source\<close> contributes nothing when it fails, and the
  ledger is the concatenation of what the blocks contribute (\<open>load_and_clean_data_eq\<close>),
  each from its own sheet.
\<close>

lemma failed_source_contributes_nothing: "contribution (try_source (Inl e)) = []"
  by (simp add: contribution_try_source)

text \<open>The other blocks do not read the \<^verbatim>\<open>Saving\<close> sheet.\<close>

lemma sources_ignore_saving_sheet:
  "sales_2025 (Some (w\<lparr>sheet_Saving := s\<rparr>)) = sales_2025 (Some w)"
  "labour_2025 (Some (w\<lparr>sheet_Saving := s\<rparr>)) = labour_2025 (Some w)"
  "rent_2025 (Some (w\<lparr>sheet_Saving := s\<rparr>)) = rent_2025 (Some w)"
  "stock_purchase_2025 (Some (w\<lparr>sheet_Saving := s\<rparr>)) = stock_purchase_2025 (Some w)"
  "utilities_2025 (Some (w\<lparr>sheet_Saving := s\<rparr>)) = utilities_2025 (Some w)"
  "other_expenses_2025 (Some (w\<lparr>sheet_Saving := s\<rparr>)) = other_expenses_2025 (Some w)"
  by (simp_all add: sales_2025_def labour_2025_def rent_2025_def stock_purchase_2025_def
      utilities_2025_def other_expenses_2025_def read_excel_def)

text \<open>
  C6 is violated by the \<^verbatim>\<open>Saving\<close> block, which appends its income frame before it
  reads the column \<^verbatim>\<open>Withdrawals\<close>: when that column is missing the block fails (it does
  not set the flag), and yet the deposits of the sheet are in the ledger, which has seven
  records where the ledger of the workbook without the sheet has six.
\<close>

theorem saving_fails_after_append:
  "\<not> sets_flag (savings_2025 no_withdrawals_workbook)
   \<and> contribution (savings_2025 no_withdrawals_workbook)
     = [\<lparr>Date = Some (Timestamp 2025 1 15), Amount = 100, Year = 2025, Category = ''Savings'',
         Type = ''Income'', Details = Some ''deposit''\<rparr>]
   \<and> map_option length (consolidated_data (snd (load_and_clean_data no_withdrawals_workbook init)))
     = Some 7
   \<and> map_option length (consolidated_data (snd (load_and_clean_data no_saving_workbook init)))
     = Some 6"
  by (simp add: sets_flag_savings_2025 no_withdrawals_workbook_def no_saving_workbook_def
      deposit_row_def loader_eval)

section \<open>C7: filtering the ledger\<close>

text \<open>
  C7 as stated fails for a criterion that is supplied but falsy: with the empty list of
  categories, which no record matches, \<open>filter_data\<close> returns all six records of the
  ledger of Source A.
\<close>

theorem filter_data_empty_categories_counterexample:
  "length (filter_data official_only None (Some []) None) = 6
   \<and> filter_data official_only None (Some []) None = filter_data official_only None None None"
  by (simp add: official_only_def loader_eval filter_defs)

lemma set_sorted_unique: "set (sorted_unique xs) = set xs"
  by (simp add: sorted_unique_def)

lemma map_of_year_breakdown:
  "map_of (map (year_entry data) ys) y = (if y \<in> set ys then Some (snd (year_entry data y)) else None)"
  by (induction ys) (simp_all add: year_entry_def Let_def)

text \<open>
  C7, amended: \<open>filter_data\<close> with year 2024 returns exactly the records of the ledger
  whose Year is 2024, a subset of the ledger, and when the ledger has a record of 2024
  their number is the \<^verbatim>\<open>transactions\<close> value of the 2024 entry of \<^verbatim>\<open>year_breakdown\<close>.
  More generally \<open>filter_data\<close> returns the records that match every criterion that is
  given, where a criterion is not given when it is omitted, \<^verbatim>\<open>'both'\<close>, or falsy: the
  year 0, the empty string, the empty list of categories.
\<close>

theorem filter_data_matches:
  "consolidated_data self = Some data \<Longrightarrow>
     filter_data self (Some (YInt 2024)) None None = filter (\<lambda>r. Year r = 2024) data
     \<and> set (filter_data self (Some (YInt 2024)) None None) \<subseteq> set data
     \<and> (2024 \<in> set (map Year data) \<longrightarrow>
          (\<exists>s e. get_data_summary self = Some s
             \<and> map_of (year_breakdown s) 2024 = Some e
             \<and> transactions e = length (filter_data self (Some (YInt 2024)) None None)))
     \<and> filter_data self year cats ty
         = filter (\<lambda>r. (year_given year \<longrightarrow> year = Some (YInt (Year r)))
                      \<and> (categories_given cats \<longrightarrow> (\<exists>cs. cats = Some cs \<and> Category r \<in> set cs))
                      \<and> (type_given ty \<longrightarrow> Some (Type r) = ty)) data
     \<and> year_given year
         = (year \<notin> {None, Some (YInt 0), Some (YStr ''''), Some (YStr ''both'')})
     \<and> categories_given cats = (cats \<notin> {None, Some []})
     \<and> type_given ty = (ty \<notin> {None, Some '''', Some ''both''})"
proof -
  assume data: "consolidated_data self = Some data"
  have a: "filter_data self (Some (YInt 2024)) None None = filter (\<lambda>r. Year r = 2024) data"
    using data by (simp add: filter_defs)
  have b: "2024 \<in> set (map Year data) \<longrightarrow>
          (\<exists>s e. get_data_summary self = Some s
             \<and> map_of (year_breakdown s) 2024 = Some e
             \<and> transactions e = length (filter (\<lambda>r. Year r = 2024) data))"
    using data
    by (simp add: get_data_summary_def map_of_year_breakdown set_sorted_unique year_entry_def
        Let_def)
  have ym: "year_given year \<Longrightarrow> year_matches year y = (year = Some (YInt y))" for y
    by (auto simp: year_given_def year_matches_def split: option.splits year_arg.splits)
  have cm: "category_isin cats c = (\<exists>cs. cats = Some cs \<and> c \<in> set cs)" for c
    by (auto simp: category_isin_def split: option.splits)
  have c0: "filter_data self year cats ty
         = filter (\<lambda>r. type_given ty \<longrightarrow> Some (Type r) = ty)
             (filter (\<lambda>r. categories_given cats \<longrightarrow> category_isin cats (Category r))
               (filter (\<lambda>r. year_given year \<longrightarrow> year_matches year (Year r)) data))"
    using data by (simp add: filter_data_def Let_def)
  have c: "filter_data self year cats ty
         = filter (\<lambda>r. (year_given year \<longrightarrow> year = Some (YInt (Year r)))
                      \<and> (categories_given cats \<longrightarrow> (\<exists>cs. cats = Some cs \<and> Category r \<in> set cs))
                      \<and> (type_given ty \<longrightarrow> Some (Type r) = ty)) data"
    unfolding c0 filter_filter by (rule filter_cong) (auto simp: ym cm)
  have d: "year_given year
         = (year \<notin> {None, Some (YInt 0), Some (YStr ''''), Some (YStr ''both'')})"
    by (auto simp: year_given_def split: option.splits year_arg.splits)
  have e: "categories_given cats = (cats \<notin> {None, Some []})"
    by (auto simp: categories_given_def split: option.splits)
  have f: "type_given ty = (ty \<notin> {None, Some '''', Some ''both''})"
    by (auto simp: type_given_def split: option.splits)
  show ?thesis using a b c d e f by simp
qed

theorem filter_data_matches_witness:
  "consolidated_data sample_processor = Some (filter_data sample_processor None None None)
   \<and> 2024 \<in> set (map Year (filter_data sample_processor None None None))
   \<and> (\<exists>s e. get_data_summary sample_processor = Some s
         \<and> map_of (year_breakdown s) 2024 = Some e
         \<and> transactions e = length (filter_data sample_processor (Some (YInt 2024)) None None))
   \<and> length (filter_data sample_processor (Some (YInt 2024)) None None) = 6
   \<and> map Category (filter_data sample_processor (Some (YInt 2025)) (Some [''Sales'', ''Savings''])
        (Some ''Income'')) = [''Sales'', ''Savings'']
   \<and> set (filter_data sample_processor (Some (YInt 2024)) None None)
        \<subseteq> set (filter_data sample_processor None None None)"
proof -
  note m = filter_data_matches [OF sample_ledger, of "Some (YInt 2025)"
      "Some [''Sales'', ''Savings'']" "Some ''Income''"]
  have y: "2024 \<in> set (map Year (filter_data sample_processor None None None))"
    by (simp only: sample_years) simp
  have sub: "set (filter_data sample_processor (Some (YInt 2024)) None None)
        \<subseteq> set (filter_data sample_processor None None None)"
    by (rule m [THEN conjunct2, THEN conjunct1])
  have cnt: "\<exists>s e. get_data_summary sample_processor = Some s
         \<and> map_of (year_breakdown s) 2024 = Some e
         \<and> transactions e = length (filter_data sample_processor (Some (YInt 2024)) None None)"
    by (rule mp [OF m [THEN conjunct2, THEN conjunct2, THEN conjunct1] y])
  show ?thesis
    by (intro conjI) (rule sample_ledger y cnt sample_2024 sample_filtered sub)+
qed

section \<open>C8: the result of the load\<close>

text \<open>
  On the workbooks of this model, whose \<^verbatim>\<open>Withdrawals\<close> and \<^verbatim>\<open>Deposits\<close> columns
  are numeric, the result of \<open>load_and_clean_data\<close> is the flag, and the flag is set
  exactly when one source block ran to its end. Source A is built from constants and
  always does: on these workbooks the method returns true, the ledger has at least the
  six records of Source A, and the branch that returns false without a ledger is never
  taken.

  This says nothing of a workbook with a text cell in the \<^verbatim>\<open>Withdrawals\<close> column of
  \<^verbatim>\<open>Labour\<close> or \<^verbatim>\<open>Expense\<close> or in the \<^verbatim>\<open>Deposits\<close> column of
  \<^verbatim>\<open>Purchase of stock\<close>, which no value of \<open>workbook\<close> denotes. These three blocks
  do not coerce the amount, the text passes \<^verbatim>\<open>dropna\<close> and reaches the ledger, and the
  \<^verbatim>\<open>groupby(['Category', 'Type']).agg\<close> of the logged summary, which stands after the
  last \<^verbatim>\<open>try\<close> block, adds it to the numbers of its group: the method then raises
  \<^verbatim>\<open>TypeError\<close> after it has set the ledger, and returns nothing.
\<close>

lemma load_and_clean_data_numeric:
  "fst (load_and_clean_data wb self) = list_ex sets_flag (sources wb)
   \<and> fst (load_and_clean_data wb self)
   \<and> (\<exists>ledger. consolidated_data (snd (load_and_clean_data wb self)) = Some ledger
         \<and> 6 \<le> length ledger)
   \<and> (consolidated_data (snd (load_and_clean_data wb init)) = None)
       = (\<not> fst (load_and_clean_data wb init))"
proof -
  have "list_ex sets_flag (sources wb)"
    by (simp add: sources_def sets_flag_official_2024)
  moreover have "6 \<le> length (concat (map contribution (sources wb)))"
    by (simp add: sources_def contribution_official_2024 expenses_2024_def)
  ultimately show ?thesis by (simp add: load_and_clean_data_eq)
qed

section \<open>C9: consistency of the official summary\<close>

text \<open>
  C9 as stated fails for the margins: the stored \<^verbatim>\<open>gross_profit_margin\<close> 23.8 is not
  \<^verbatim>\<open>gross_profit / sales * 100\<close>, which is 23.76...
\<close>

theorem official_summary_margins_counterexample:
  "get_official_2024_summary ''gross_profit'' = Some 5374558
   \<and> get_official_2024_summary ''sales'' = Some 22619122
   \<and> get_official_2024_summary ''gross_profit_margin'' \<noteq> Some (fmul (fdiv 5374558 22619122) 100)"
  by (simp add: get_official_2024_summary_def)

text \<open>
  C9, amended: in the record returned by \<open>get_official_2024_summary\<close>,
  gross_profit = sales - cogs, total_operating_expenses = labour + rent + transport +
  transaction_costs, net_profit = gross_profit - total_operating_expenses, and the two
  margins are gross_profit and net_profit as percentages of sales, rounded to one decimal
  place.
\<close>

theorem official_summary_consistent:
  "\<exists>sales cogs gross labour rent transport costs opex net gm nm.
     get_official_2024_summary ''sales'' = Some sales
     \<and> get_official_2024_summary ''cogs'' = Some cogs
     \<and> get_official_2024_summary ''gross_profit'' = Some gross
     \<and> get_official_2024_summary ''labour'' = Some labour
     \<and> get_official_2024_summary ''rent'' = Some rent
     \<and> get_official_2024_summary ''transport'' = Some transport
     \<and> get_official_2024_summary ''transaction_costs'' = Some costs
     \<and> get_official_2024_summary ''total_operating_expenses'' = Some opex
     \<and> get_official_2024_summary ''net_profit'' = Some net
     \<and> get_official_2024_summary ''gross_profit_margin'' = Some gm
     \<and> get_official_2024_summary ''net_profit_margin'' = Some nm
     \<and> gross = fsub sales cogs
     \<and> opex = fadd (fadd (fadd labour rent) transport) costs
     \<and> net = fsub gross opex
     \<and> gm = one_decimal (fmul (fdiv gross sales) 100)
     \<and> nm = one_decimal (fmul (fdiv net sales) 100)"
  by (rule exI [of _ "22619122"], rule exI [of _ "17244564"], rule exI [of _ "5374558"],
      rule exI [of _ "601155"], rule exI [of _ "192000"], rule exI [of _ "1028770"],
      rule exI [of _ "5619798062084915 / 34359738368"],
      rule exI [of _ "4263791524262707 / 2147483648"],
      rule exI [of _ "7277983895964877 / 2147483648"],
      rule exI [of _ "6699104445713613 / 281474976710656"], rule exI [of _ "15"])
     (simp add: get_official_2024_summary_def)

section \<open>C10: the calculator without a ledger\<close>

text \<open>
  C10: when the processor holds no consolidated ledger, \<open>filter_data\<close> returns the empty
  frame for any arguments, \<open>get_data_summary\<close> returns the empty dictionary, and
  \<open>calculate_kpis\<close> of the empty frame returns 0 for total_income, total_expenses,
  net_profit and profit_margin.
\<close>

theorem no_ledger_degrades:
  "consolidated_data self = None \<Longrightarrow>
     filter_data self year cats ty = []
     \<and> get_data_summary self = None
     \<and> calculate_kpis [] ''total_income'' = Some (Finite 0)
     \<and> calculate_kpis [] ''total_expenses'' = Some (Finite 0)
     \<and> calculate_kpis [] ''net_profit'' = Some (Finite 0)
     \<and> calculate_kpis [] ''profit_margin'' = Some (Finite 0)
     \<and> dom (calculate_kpis (filter_data self year cats ty))
         = {''total_income'', ''total_expenses'', ''net_profit'', ''profit_margin''}"
  by (auto simp: filter_data_def get_data_summary_def calculate_kpis_def)

theorem no_ledger_degrades_witness:
  "consolidated_data init = None
   \<and> filter_data init (Some (YInt 2024)) (Some [''Sales'']) (Some ''Income'') = []
   \<and> get_data_summary init = None
   \<and> calculate_kpis (filter_data init (Some (YInt 2024)) (Some [''Sales'']) (Some ''Income''))
        ''profit_margin'' = Some (Finite 0)"
  using no_ledger_degrades [of init "Some (YInt 2024)" "Some [''Sales'']" "Some ''Income''"]
  by (simp add: init_def)

end
